theory Spec2Isabelle
  imports Complex_Main "HOL-Library.Sublist" "HOL-Library.Multiset"
begin

section \<open>Data model\<close>

text \<open>
  Python exceptions are values: every function of the source that can raise returns
  \<open>pyerr + 'a\<close>, with \<open>Inl\<close> for the exception.
\<close>

datatype pyerr = KeyError | IndexError | ValueError | TypeError | UnboundLocalError

text \<open>
  For the matcher and the pipeline a pandas DataFrame is a list of labelled numeric columns
  and a list of rows. Every row carries its \<open>conceptUri\<close> (the matcher addresses the uris of
  the pool as the index and those of a bucket as a column of that name), the cells of the
  numeric columns in column order, and the remaining cells of the stage it belongs to in
  \<open>extra\<close>. Where the recommender depends on the place of a column, the frames are tables
  with all their columns, see there.
\<close>

datatype 'a row = Row (conceptUri: string) (cells: "real list") (extra: 'a)

datatype 'a frame = Frame (columns: "string list") (rows: "'a row list")

text \<open>\<open>DataFrame.empty\<close>: a frame here always has a column, so it is empty when it has no row.\<close>

definition df_empty :: "'a frame \<Rightarrow> bool" where
  "df_empty f = (rows f = [])"

text \<open>\<open>DataFrame.head(n)\<close>.\<close>

definition head :: "nat \<Rightarrow> 'a frame \<Rightarrow> 'a frame" where
  "head n f = Frame (columns f) (take n (rows f))"

text \<open>A change of the cells kept in \<open>extra\<close>, row by row.\<close>

definition map_extra :: "('a \<Rightarrow> 'b) \<Rightarrow> 'a row \<Rightarrow> 'b row" where
  "map_extra g r = Row (conceptUri r) (cells r) (g (extra r))"

definition map_frame :: "('a \<Rightarrow> 'b) \<Rightarrow> 'a frame \<Rightarrow> 'b frame" where
  "map_frame g f = Frame (columns f) (map (map_extra g) (rows f))"

text \<open>
  \<open>preferences\<close> is a list of sector codes or \<open>None\<close>; \<open>job_history\<close> is a list of
  dictionaries \<open>{uri: liked}\<close>, each an association list.
\<close>

type_synonym preferences = "nat list option"

type_synonym job_history = "(string \<times> bool) list list"

section \<open>JobMatcher\<close>

subsection \<open>Library functions the matcher calls\<close>

text \<open>
  \<open>sklearn.metrics.pairwise.euclidean_distances(Q, X)\<close> with a one-row \<open>Q\<close>: the distance of
  \<open>Q\<close> to every row of \<open>X\<close>. The input check of scikit-learn raises ValueError for an \<open>X\<close>
  without rows and for rows whose length is not the length of \<open>Q\<close>. Numbers are reals: the
  rounding of floating point is not modelled.
\<close>

definition euclidean :: "real list \<Rightarrow> real list \<Rightarrow> real" where
  "euclidean x y = sqrt (\<Sum>(a, b)\<leftarrow>zip x y. (a - b)\<^sup>2)"

definition check_pairwise_arrays :: "real list \<Rightarrow> real list list \<Rightarrow> bool" where
  "check_pairwise_arrays q X = (X \<noteq> [] \<and> list_all (\<lambda>x. length x = length q) X)"

definition euclidean_distances :: "real list \<Rightarrow> real list list \<Rightarrow> pyerr + real list" where
  "euclidean_distances q X =
     (if check_pairwise_arrays q X then Inr (map (euclidean q) X) else Inl ValueError)"

text \<open>
  \<open>cosine_similarity(Q, X)\<close>: both sides are scaled to length one (a row of norm zero is
  left as it is) and multiplied.
\<close>

definition l2_norm :: "real list \<Rightarrow> real" where
  "l2_norm x = sqrt (\<Sum>a\<leftarrow>x. a\<^sup>2)"

definition normalize :: "real list \<Rightarrow> real list" where
  "normalize x = (let n = l2_norm x in map (\<lambda>a. a / (if n = 0 then 1 else n)) x)"

definition cosine :: "real list \<Rightarrow> real list \<Rightarrow> real" where
  "cosine x y = (\<Sum>(a, b)\<leftarrow>zip (normalize x) (normalize y). a * b)"

definition cosine_similarity :: "real list \<Rightarrow> real list list \<Rightarrow> pyerr + real list" where
  "cosine_similarity q X =
     (if check_pairwise_arrays q X then Inr (map (cosine q) X) else Inl ValueError)"

text \<open>
  \<open>np.argsort\<close> is called with its default sort kind, for which NumPy promises the indices
  that sort the array and no order among equal elements. The matcher takes the routine as
  a parameter; \<open>is_argsort\<close> is what NumPy promises of it.
\<close>

definition is_argsort :: "nat list \<Rightarrow> real list \<Rightarrow> bool" where
  "is_argsort p xs =
     (distinct p \<and> set p = {..<length xs} \<and> sorted (map (\<lambda>i. xs ! i) p))"

text \<open>A stable instance of the routine: insertion sort of the positions by their values.\<close>

definition stable_argsort :: "real list \<Rightarrow> nat list" where
  "stable_argsort xs = map snd (sort_key fst (zip xs [0..<length xs]))"

subsection \<open>Frames\<close>

text \<open>\<open>df[names].values\<close>: the cells under the given labels, row by row; a label that is
  not a column raises KeyError (\<open>None\<close> here).\<close>

definition getitem :: "string list \<Rightarrow> (string \<times> real) list \<Rightarrow> real list option" where
  "getitem names series = those (map (map_of series) names)"

definition df_values :: "string list \<Rightarrow> 'a frame \<Rightarrow> real list list option" where
  "df_values names f = those (map (\<lambda>r. getitem names (zip (columns f) (cells r))) (rows f))"

text \<open>\<open>df.rename(columns=mapper)\<close>.\<close>

definition df_rename :: "(string \<times> string) list \<Rightarrow> string list \<Rightarrow> string list" where
  "df_rename mapper cs = map (\<lambda>c. case map_of mapper c of None \<Rightarrow> c | Some c' \<Rightarrow> c') cs"

text \<open>
  \<open>df.iloc[top_indices]\<close> followed by the assignment of the column \<open>Distance\<close>: row \<open>k\<close> of
  the result is row \<open>top_indices[k]\<close> of \<open>df\<close> with \<open>similarities[top_indices[k]]\<close> beside it.
  A position outside the frame raises IndexError.
\<close>

definition iloc_with_distance ::
  "'a frame \<Rightarrow> real list \<Rightarrow> nat list \<Rightarrow> pyerr + ('a \<times> real) frame" where
  "iloc_with_distance f similarities top_indices =
     (if list_all (\<lambda>i. i < length (rows f) \<and> i < length similarities) top_indices
      then Inr (Frame (columns f)
             (map (\<lambda>i. Row (conceptUri (rows f ! i)) (cells (rows f ! i))
                          (extra (rows f ! i), similarities ! i)) top_indices))
      else Inl IndexError)"

definition Distance :: "('a \<times> real) row \<Rightarrow> real" where
  "Distance r = snd (extra r)"

subsection \<open>calculate\_distances\<close>

definition column_map :: "(string \<times> string) list" where
  "column_map =
     [(''self_initiative'', ''FS1''), (''flexibility'', ''FS2''), (''leadership'', ''FS3''),
      (''communication'', ''FS4''), (''creativity'', ''FS5''), (''customer_orientation'', ''FS6''),
      (''organization'', ''FS7''), (''problem_solving'', ''FS8''), (''resilience'', ''FS9''),
      (''goal_orientation'', ''FS10'')]"

definition future_skill_col_names :: "string list" where
  "future_skill_col_names =
     [''FS1'', ''FS2'', ''FS3'', ''FS4'', ''FS5'', ''FS6'', ''FS7'', ''FS8'', ''FS9'', ''FS10'']"

text \<open>
  Lines 321 and 322: the columns of the argument are renamed in place, so the caller's
  frame is changed. \<open>rename_in_place\<close> is the frame the caller holds after the call.
\<close>

definition rename_in_place :: "'a frame \<Rightarrow> 'a frame" where
  "rename_in_place job_fs_profiles =
     (if ''self_initiative'' \<in> set (columns job_fs_profiles)
      then Frame (df_rename column_map (columns job_fs_profiles)) (rows job_fs_profiles)
      else job_fs_profiles)"

text \<open>
  \<open>calculate_distances\<close> returns the sorted frame and, as second component, its argument
  \<open>job_fs_profiles\<close> as the call leaves it. \<open>method\<close> is the attribute of the matcher; with a
  value other than the two known ones neither branch binds \<open>top_indices\<close> and the next
  line raises UnboundLocalError.
\<close>

definition calculate_distances ::
  "string \<Rightarrow> (real list \<Rightarrow> nat list) \<Rightarrow> (string \<times> real) list \<Rightarrow> 'a frame \<Rightarrow>
   (pyerr + ('a \<times> real) frame) \<times> 'a frame" where
  "calculate_distances method argsort query_vector job_fs_profiles =
     (let df = rename_in_place job_fs_profiles in
      (case getitem future_skill_col_names query_vector of
         None \<Rightarrow> Inl KeyError
       | Some query_vector_np \<Rightarrow>
           if method = ''euclidean'' then
             (case df_values future_skill_col_names df of
                None \<Rightarrow> Inl KeyError
              | Some X \<Rightarrow>
                 (case euclidean_distances query_vector_np X of
                    Inl e \<Rightarrow> Inl e
                  | Inr similarities \<Rightarrow>
                      iloc_with_distance df similarities (argsort similarities)))
           else if method = ''cosine'' then
             (case df_values future_skill_col_names df of
                None \<Rightarrow> Inl KeyError
              | Some X \<Rightarrow>
                 (case cosine_similarity query_vector_np X of
                    Inl e \<Rightarrow> Inl e
                  | Inr similarities \<Rightarrow>
                      iloc_with_distance df similarities (rev (argsort similarities))))
           else Inl UnboundLocalError,
       df))"

subsection \<open>esco\_helper\<close>

text \<open>
  esco\_helper.py reads the ESCO tables from CSV files; the model takes their content. Of
  each row only \<open>conceptUri\<close> and \<open>code\<close> are kept (\<open>None\<close> is a missing code, which pandas
  reads as NaN). \<open>look_up_table\<close> is the concatenation of the occupations with the ISCO
  groups, skills and skill groups, indexed by \<open>conceptUri\<close>; the uris are unique keys.
  \<open>broaderRelationsOccPillar\<close> holds the pairs \<open>(conceptUri, broaderUri)\<close>.
\<close>

record esco =
  occupations :: "(string \<times> string option) list"
  other_concepts :: "(string \<times> string option) list"
  broaderRelationsOccPillar :: "(string \<times> string) list"

definition look_up_table :: "esco \<Rightarrow> (string \<times> string option) list" where
  "look_up_table E = occupations E @ other_concepts E"

text \<open>\<open>look_up_code\<close>: \<open>look_up_table.loc[uri]["code"]\<close>, KeyError for an unknown uri.\<close>

definition look_up_code :: "esco \<Rightarrow> string \<Rightarrow> pyerr + string option" where
  "look_up_code E uri =
     (case map_of (look_up_table E) uri of None \<Rightarrow> Inl KeyError | Some code \<Rightarrow> Inr code)"

text \<open>\<open>str(code)\<close>: a missing code prints as \<open>nan\<close>.\<close>

definition str_code :: "string option \<Rightarrow> string" where
  "str_code code = (case code of None \<Rightarrow> ''nan'' | Some c \<Rightarrow> c)"

text \<open>
  \<open>get_narrower_occupations\<close>: the occupations whose code starts with the code of \<open>uri\<close> and
  is longer. A row with a missing code gives a missing mask entry, which selects nothing.
  The result is \<open>occupations[...][["conceptUri"]].values\<close>: the selection with the double
  brackets is a frame with one column, so its values are a two-dimensional array with one
  row, of length one, for each occupation.
\<close>

definition get_narrower_occupations :: "esco \<Rightarrow> string \<Rightarrow> pyerr + string list list" where
  "get_narrower_occupations E uri =
     (case look_up_code E uri of
        Inl e \<Rightarrow> Inl e
      | Inr code \<Rightarrow>
          Inr (map (\<lambda>(u, c). [u])
                 (filter (\<lambda>(u, c). case c of None \<Rightarrow> False
                                   | Some c' \<Rightarrow> prefix (str_code code) c'
                                        \<and> length c' > length (str_code code))
                         (occupations E))))"

subsection \<open>filter\_by\_job\_history\<close>

text \<open>The keys of the dictionaries of \<open>job_history\<close> whose value is false.\<close>

definition jobs_disliked :: "job_history \<Rightarrow> string list" where
  "jobs_disliked job_history =
     concat (map (\<lambda>job_dict. map fst (filter (\<lambda>(key, v). \<not> v) job_dict)) job_history)"

text \<open>
  \<open>df.loc[label].values.reshape(1, -1)\<close>: KeyError when no row has the label; when several
  have it their cells are laid side by side, and \<open>euclidean_distances\<close> then refuses the
  length.
\<close>

definition loc_values :: "'a frame \<Rightarrow> string \<Rightarrow> pyerr + real list" where
  "loc_values f label =
     (case filter (\<lambda>r. conceptUri r = label) (rows f) of
        [] \<Rightarrow> Inl KeyError
      | rs \<Rightarrow> Inr (concat (map cells rs)))"

definition max_euclidean_distance :: real where
  "max_euclidean_distance = 30"

text \<open>
  The entries of a \<open>pd.Index\<close> that the history filter builds. From a list or a
  one-dimensional array of strings \<open>pd.Index\<close> takes the strings; a two-dimensional array of
  strings it reads row by row, each row becoming one entry that is a tuple. A tuple is
  never equal to a string.
\<close>

datatype label = Label string | Tuple "string list"

definition Index_1d :: "string list \<Rightarrow> label list" where
  "Index_1d values = map Label values"

definition Index_2d :: "string list list \<Rightarrow> label list" where
  "Index_2d values = map Tuple values"

text \<open>
  The body of the loop over the disliked jobs, on the pair
  \<open>(profiles_to_remove, narrower_jobs_to_remove)\<close>. The two index sets are kept as lists;
  they are only used for membership.
\<close>

fun collect_jobs_to_remove ::
  "'a frame \<Rightarrow> esco \<Rightarrow> string list \<Rightarrow> label list \<times> label list \<Rightarrow>
   pyerr + (label list \<times> label list)" where
  "collect_jobs_to_remove job_fs_profiles E [] acc = Inr acc"
| "collect_jobs_to_remove job_fs_profiles E (job # jobs) (profiles_to_remove, narrower_jobs_to_remove) =
     (case loc_values job_fs_profiles job of
        Inl e \<Rightarrow> Inl e
      | Inr v \<Rightarrow>
     (case euclidean_distances v (map cells (rows job_fs_profiles)) of
        Inl e \<Rightarrow> Inl e
      | Inr similarities \<Rightarrow>
     (case get_narrower_occupations E job of
        Inl e \<Rightarrow> Inl e
      | Inr narrower_occupations \<Rightarrow>
          collect_jobs_to_remove job_fs_profiles E jobs
            (profiles_to_remove @ Index_1d [job]
               @ Index_1d (map (conceptUri \<circ> fst)
                   (filter (\<lambda>(r, d). d < max_euclidean_distance)
                      (zip (rows job_fs_profiles) similarities))),
             narrower_jobs_to_remove @ Index_2d narrower_occupations))))"

text \<open>
  \<open>filter_by_job_history\<close>. The index of \<open>job_fs_profiles\<close> holds the uris as strings;
  \<open>isin\<close> keeps the rows whose uri is no entry of \<open>all_jobs_to_remove\<close>.
\<close>

definition filter_by_job_history :: "'a frame \<Rightarrow> esco \<Rightarrow> job_history \<Rightarrow> pyerr + 'a frame" where
  "filter_by_job_history job_fs_profiles E job_history =
     (if length (jobs_disliked job_history) > 0 then
        (case collect_jobs_to_remove job_fs_profiles E (jobs_disliked job_history) ([], []) of
           Inl e \<Rightarrow> Inl e
         | Inr (profiles_to_remove, narrower_jobs_to_remove) \<Rightarrow>
             Inr (Frame (columns job_fs_profiles)
                    (filter (\<lambda>r. Label (conceptUri r)
                                   \<notin> set (profiles_to_remove @ narrower_jobs_to_remove))
                       (rows job_fs_profiles))))
      else Inr job_fs_profiles)"

subsection \<open>filter\_by\_preferences\<close>

text \<open>\<open>str\<close> of a sector code: its decimal digits.\<close>

definition digit_char :: "nat \<Rightarrow> char" where
  "digit_char d = ''0123456789'' ! (d mod 10)"

fun str_nat :: "nat \<Rightarrow> string" where
  "str_nat n = (if n < 10 then [digit_char n] else str_nat (n div 10) @ [digit_char (n mod 10)])"

text \<open>
  \<open>Series.str.contains("|".join(alternatives), regex=True)\<close> for alternatives made of digits:
  the cell has one of them as a substring. No alternative at all gives the empty pattern,
  which every cell contains.
\<close>

definition str_contains :: "string list \<Rightarrow> string \<Rightarrow> bool" where
  "str_contains alternatives cell =
     (alternatives = [] \<or> list_ex (\<lambda>a. sublist a cell) alternatives)"

text \<open>
  \<open>job_fs_profiles.merge(esco2kldb, left_on="conceptUri", right_on="conceptUri")\<close>: the inner
  join. Each row of the left frame is paired with every row of \<open>esco2kldb\<close> that has its
  \<open>conceptUri\<close>, in the order of the left frame; a row without a partner is dropped.
  \<open>esco2kldb\<close> is the list of its \<open>(conceptUri, kldb_keys)\<close> pairs.
\<close>

definition merge_kldb :: "'a frame \<Rightarrow> (string \<times> string) list \<Rightarrow> ('a \<times> string) frame" where
  "merge_kldb job_fs_profiles esco2kldb =
     Frame (columns job_fs_profiles)
       (concat (map (\<lambda>r. map (\<lambda>(u, k). Row (conceptUri r) (cells r) (extra r, k))
                              (filter (\<lambda>(u, k). u = conceptUri r) esco2kldb))
                    (rows job_fs_profiles)))"

definition kldb_keys :: "('a \<times> string) row \<Rightarrow> string" where
  "kldb_keys r = snd (extra r)"

definition filter_by_preferences ::
  "'a frame \<Rightarrow> (string \<times> string) list \<Rightarrow> preferences \<Rightarrow> ('a \<times> string) frame \<times> ('a \<times> string) frame" where
  "filter_by_preferences job_fs_profiles esco2kldb preferences =
     (let merged = merge_kldb job_fs_profiles esco2kldb;
          result = (case preferences of
                      None \<Rightarrow> merged
                    | Some ps \<Rightarrow>
                        Frame (columns merged)
                          (filter (\<lambda>r. str_contains (map str_nat ps) (kldb_keys r)) (rows merged)))
      in (result, result))"

subsection \<open>User profiles\<close>

text \<open>
  The frame of the reference user profiles. What a cell of the columns
  \<open>job_recommendations\<close> and \<open>job_ratings\<close> can hold: a list, a string as read from the
  CSV file, NaN, or a value of another type. \<open>professional_interests\<close> is a string or
  missing; \<open>skills\<close> are the numeric cells.
\<close>

datatype cell = CList "string list" | CStr string | CNaN | COther

record user_profile =
  user_id :: string
  skills :: "real list"
  professional_interests :: "string option"
  job_recommendations :: cell
  job_ratings :: cell

record user_profiles =
  user_columns :: "string list"
  user_rows :: "user_profile list"

text \<open>Python's \<open>s.split(",")\<close>.\<close>

fun split_comma :: "string \<Rightarrow> string list" where
  "split_comma [] = [[]]"
| "split_comma (c # cs) =
     (if c = CHR '','' then [] # split_comma cs
      else (case split_comma cs of w # ws \<Rightarrow> (c # w) # ws | [] \<Rightarrow> [[c]]))"

text \<open>\<open>process_column_data\<close> of \<open>expand_user_profiles\<close>.\<close>

fun process_column_data :: "cell \<Rightarrow> string list" where
  "process_column_data (CList l) = l"
| "process_column_data CNaN = []"
| "process_column_data (CStr item) = split_comma item"
| "process_column_data COther = []"

text \<open>
  Lines 130 and 131 assign the processed columns to the frame that was passed in: this is
  the frame the caller holds after the call.
\<close>

definition process_columns :: "user_profiles \<Rightarrow> user_profiles" where
  "process_columns df_user_profiles =
     df_user_profiles\<lparr>user_rows :=
        map (\<lambda>p. p\<lparr>job_recommendations := CList (process_column_data (job_recommendations p)),
                    job_ratings := CList (process_column_data (job_ratings p))\<rparr>)
            (user_rows df_user_profiles)\<rparr>"

text \<open>
  \<open>expand_rows\<close>: one row for each pair of \<open>zip(job_recommendations, job_ratings)\<close> of each
  profile, with the recommendation in \<open>conceptUri\<close> and the rating in
  \<open>single_job_rating\<close>, and all cells of the profile kept. \<open>num_preferences\<close> is the column
  that \<open>filter_by_rating\<close> adds later; it is empty until then.
\<close>

record expanded =
  profile :: user_profile
  single_job_rating :: string
  num_preferences :: "nat list"

definition expand_rows :: "user_profile list \<Rightarrow> expanded row list" where
  "expand_rows df =
     concat (map (\<lambda>p. map (\<lambda>(rec, rating).
                          Row rec (skills p)
                            \<lparr>profile = p, single_job_rating = rating, num_preferences = []\<rparr>)
                        (zip (process_column_data (job_recommendations p))
                             (process_column_data (job_ratings p))))
                 df)"

text \<open>
  \<open>expand_user_profiles\<close>: the expanded rows and the frame as the call leaves it.
  \<open>dropna\<close> removes nothing, since no processed cell is missing.
\<close>

definition expand_user_profiles :: "user_profiles \<Rightarrow> expanded row list \<times> user_profiles" where
  "expand_user_profiles df_user_profiles =
     (let df = process_columns df_user_profiles in (expand_rows (user_rows df), df))"

subsection \<open>mapSectorsToNumbers\<close>

text \<open>
  The sector names of the KldB, in the order of the dictionary. Strings are bytes: the
  letter a-umlaut is the two bytes C3 A4 of UTF-8.
\<close>

definition sectors_kldb :: "(nat \<times> string) list" where
  "sectors_kldb =
     [(1, ''Land-, Forst- und Tierwirtschaft und Gartenbau''),
      (2, ''Rohstoffgewinnung, Produktion und Fertigung''),
      (3, ''Bau, Architektur, Vermessung und Geb'' @ [CHR 0xC3, CHR 0xA4] @ ''udetechnik''),
      (4, ''Naturwissenschaft, Geografie und Informatik''),
      (5, ''Verkehr, Logistik, Schutz und Sicherheit''),
      (6, ''Kaufm'' @ [CHR 0xC3, CHR 0xA4]
            @ ''nnische Dienstleistungen, Warenhandel, Vertrieb, Hotel und Tourismus''),
      (7, ''Unternehmensorganisation, Buchhaltung, Recht und Verwaltung''),
      (8, ''Gesundheit, Soziales, Lehre und Erziehung''),
      (9, ''Sprach-, Geistes-, Gesellschafts- und Wirtschaftswissenschaften, Medien, Kunst und Kultur''),
      (0, ''Milit'' @ [CHR 0xC3, CHR 0xA4] @ ''r'')]"

text \<open>\<open>value in sectorsList\<close> for a string \<open>sectorsList\<close> is the substring test.\<close>

definition mapSectorsToNumbers :: "string \<Rightarrow> nat list" where
  "mapSectorsToNumbers sectorsList =
     map fst (filter (\<lambda>(key, v). sublist v sectorsList) sectors_kldb)"

subsection \<open>filter\_by\_rating\<close>

text \<open>
  \<open>is_nan_or_empty\<close> (defined in \<open>filter_by_rating\<close> and again in
  \<open>match_user_profile\<close>, with the same body): the value is the
  float NaN (\<open>None\<close> here) or a list of length 0.
\<close>

definition is_nan_or_empty :: "'x list option \<Rightarrow> bool" where
  "is_nan_or_empty v = (case v of None \<Rightarrow> True | Some l \<Rightarrow> length l = 0)"

text \<open>
  The sequence of lines 204 to 208, which the source repeats in lines 233 to 239 and 261
  to 267: \<open>filter_by_job_history\<close>, then \<open>filter_by_preferences\<close>, whose pair is returned.
  The rows of a bucket are occupation rows (\<open>Inl\<close>) or expanded user rows (\<open>Inr\<close>).
\<close>

definition history_then_preferences ::
  "'a frame \<Rightarrow> (string \<times> string) list \<Rightarrow> esco \<Rightarrow> preferences \<Rightarrow> job_history \<Rightarrow>
   pyerr + ((('a \<times> string) + expanded) frame \<times> (('a \<times> string) + expanded) frame)" where
  "history_then_preferences transformed_profiles esco_kldb E preferences job_history =
     (case filter_by_job_history transformed_profiles E job_history of
        Inl e \<Rightarrow> Inl e
      | Inr user_profiles_by_job_history \<Rightarrow>
          (case filter_by_preferences user_profiles_by_job_history esco_kldb preferences of
             (a, b) \<Rightarrow> Inr (map_frame Inl a, map_frame Inl b)))"

text \<open>\<open>transformed_profiles[~transformed_profiles.index.isin(rated_conceptUri_list)]\<close>.\<close>

definition not_yet_rated :: "'a frame \<Rightarrow> string list \<Rightarrow> 'a frame" where
  "not_yet_rated transformed_profiles rated_conceptUri_list =
     Frame (columns transformed_profiles)
       (filter (\<lambda>r. conceptUri r \<notin> set rated_conceptUri_list) (rows transformed_profiles))"

definition is_preference_not_matched :: "nat list \<Rightarrow> nat list \<Rightarrow> bool" where
  "is_preference_not_matched preferences num_prefs =
     list_all (\<lambda>pref. pref \<notin> set num_prefs) preferences"

definition is_preference_matched :: "nat list \<Rightarrow> nat list \<Rightarrow> bool" where
  "is_preference_matched preferences num_prefs =
     list_ex (\<lambda>pref. pref \<in> set num_prefs) preferences"

text \<open>
  Lines 241 to 253: the expanded rows of the users in \<open>matching_profiles\<close> that carry the
  rating \<open>1\<close> and a \<open>conceptUri\<close> that was not yet recommended to the current user.
\<close>

definition liked_by_matching ::
  "expanded row list \<Rightarrow> expanded row list \<Rightarrow> string list \<Rightarrow> expanded row list" where
  "liked_by_matching df_user_profiles_expanded matching_profiles rated_conceptUri_list =
     (let relevant_ids = map (\<lambda>r. user_id (profile (extra r))) matching_profiles;
          user_profiles_prefiltered =
            filter (\<lambda>r. user_id (profile (extra r)) \<in> set relevant_ids
                         \<and> single_job_rating (extra r) = ''1'')
                   df_user_profiles_expanded
      in filter (\<lambda>r. conceptUri r \<notin> set rated_conceptUri_list) user_profiles_prefiltered)"

text \<open>Lines 269 to 271: the column \<open>num_preferences\<close>.\<close>

definition with_num_preferences :: "expanded row \<Rightarrow> expanded row" where
  "with_num_preferences r =
     map_extra (\<lambda>x. x\<lparr>num_preferences :=
                        (case professional_interests (profile x) of
                           None \<Rightarrow> [] | Some i \<Rightarrow> mapSectorsToNumbers i)\<rparr>) r"

text \<open>
  The function that lines 269 to 271 apply to a cell of \<open>professional_interests\<close>:
  \<open>self.mapSectorsToNumbers(x) if pd.notnull(x) else []\<close>, the sectors that the interests
  of a reference user name.
\<close>

definition sector_numbers :: "string option \<Rightarrow> nat list" where
  "sector_numbers x = (case x of None \<Rightarrow> [] | Some i \<Rightarrow> mapSectorsToNumbers i)"

text \<open>
  \<open>filter_by_rating\<close>. The result is the pair of buckets, or the exception, together with
  \<open>user_profiles\<close> as the call leaves it. A frame built from no expanded row has no
  column, so the selection of \<open>conceptUri\<close> in line 217 or 224 raises KeyError on it.
  Iterating over \<open>preferences\<close> in lines 275 and 283 raises TypeError when it is
  \<open>None\<close>. Ratings are compared as strings. The last case of the match on the two lists
  is never reached: a list that is NaN takes the first branch.
\<close>

definition filter_by_rating ::
  "'a frame \<Rightarrow> user_profiles \<Rightarrow> (string \<times> string) list \<Rightarrow> esco \<Rightarrow> preferences \<Rightarrow> job_history \<Rightarrow>
   string list option \<Rightarrow> string list option \<Rightarrow>
   (pyerr + ((('a \<times> string) + expanded) frame \<times> (('a \<times> string) + expanded) frame)) \<times> user_profiles" where
  "filter_by_rating transformed_profiles user_profiles esco_kldb E preferences job_history
       rated_conceptUri_list user_profile_rating_list =
     (case expand_user_profiles user_profiles of
        (df_user_profiles_expanded, user_profiles_after) \<Rightarrow>
     (if is_nan_or_empty rated_conceptUri_list \<or> is_nan_or_empty user_profile_rating_list then
        history_then_preferences transformed_profiles esco_kldb E preferences job_history
      else
        (case (rated_conceptUri_list, user_profile_rating_list) of
           (Some uris, Some ratings) \<Rightarrow>
             (let rated_conceptUri = last uris;
                  user_profile_last_rating = last ratings;
                  skipped = history_then_preferences (not_yet_rated transformed_profiles uris)
                              esco_kldb E preferences job_history;
                  decisive = (\<lambda>rating.
                    if df_user_profiles_expanded = [] then Inl KeyError
                    else
                      (let matching_profiles =
                             filter (\<lambda>r. conceptUri r = rated_conceptUri
                                          \<and> single_job_rating (extra r) = rating)
                                    df_user_profiles_expanded;
                           user_profiles_filtered =
                             liked_by_matching df_user_profiles_expanded matching_profiles uris
                       in if user_profiles_filtered = [] then skipped
                          else
                            (case preferences of
                               None \<Rightarrow> Inl TypeError
                             | Some ps \<Rightarrow>
                                 (let rs = map with_num_preferences user_profiles_filtered;
                                      not_filtered_user_profiles =
                                        filter (\<lambda>r. is_preference_not_matched ps
                                                       (num_preferences (extra r))) rs;
                                      filtered_user_profiles =
                                        filter (\<lambda>r. is_preference_matched ps
                                                       (num_preferences (extra r))) rs
                                  in Inr (Frame (user_columns user_profiles_after)
                                            (map (map_extra Inr) filtered_user_profiles),
                                          Frame (user_columns user_profiles_after)
                                            (map (map_extra Inr) not_filtered_user_profiles))))))
              in if user_profile_last_rating = ''-1'' then decisive ''-1''
                 else if user_profile_last_rating = ''1'' then decisive ''1''
                 else skipped)
         | _ \<Rightarrow> Inl TypeError),
      user_profiles_after))"

text \<open>
  The log of a reference user: the pairs of a recommended uri and its rating that
  \<open>expand_rows\<close> walks through.
\<close>

definition rating_log :: "user_profile \<Rightarrow> (string \<times> string) list" where
  "rating_log p =
     zip (process_column_data (job_recommendations p)) (process_column_data (job_ratings p))"

text \<open>
  For comparison with \<open>liked_by_matching\<close>, the peer-sourced candidates as the
  specification words them: the uris that a reference user rated \<open>1\<close> at a later place of the
  log than a place where that user gave the rating \<open>r\<close> to the uri \<open>u\<close>, without the uris
  already shown.
\<close>

fun later_likes :: "(string \<times> string) list \<Rightarrow> string \<Rightarrow> string \<Rightarrow> string list" where
  "later_likes [] u r = []"
| "later_likes ((c, x) # rest) u r =
     (if c = u \<and> x = r then map fst (filter (\<lambda>(c', x'). x' = ''1'') rest) else [])
     @ later_likes rest u r"

definition spec_subsequently_liked ::
  "user_profile list \<Rightarrow> string \<Rightarrow> string \<Rightarrow> string list \<Rightarrow> string list" where
  "spec_subsequently_liked peers u r shown =
     filter (\<lambda>V. V \<notin> set shown) (concat (map (\<lambda>p. later_likes (rating_log p) u r) peers))"

text \<open>
  \<open>extract_user_rating\<close> for the one-row frame of the request: the cells
  \<open>job_ratings\<close> and \<open>job_recommendations\<close> split at the commas, or NaN.
\<close>

record target_profile =
  profile_cells :: "(string \<times> real) list"
  target_job_recommendations :: "string option"
  target_job_ratings :: "string option"

definition extract_user_rating :: "target_profile \<Rightarrow> string list option \<times> string list option" where
  "extract_user_rating user_profile =
     (map_option split_comma (target_job_ratings user_profile),
      map_option split_comma (target_job_recommendations user_profile))"

section \<open>JobRecommender\<close>

text \<open>recommender.py, \<open>get_recommendations\<close>: \<open>matches.head(10)\<close>.\<close>

definition get_recommendations :: "'a frame \<Rightarrow> 'a frame" where
  "get_recommendations matches = head 10 matches"

subsection \<open>The DataFrames of the recommender\<close>

text \<open>
  The methods that refine the recommendations address their frames by the labels and by the
  positions of the columns, and by the index. For them a DataFrame is a table: the column
  labels in order, and the rows, each with its index label and its cells in column order. A
  cell is a number, a text, missing (NaN), or another object such as a list. The column
  labels of a table are taken to be distinct, as \<open>read_csv\<close> and \<open>merge\<close> make them, and the
  index has no name to merge on: the frames whose index is named are the pools, which are
  looked up and never merged. \<open>origin\<close> is no part of the DataFrame: it is what the row stands
  for outside the recommender.
\<close>

datatype val = Num real | Text string | Missing | Object

datatype 'a trow = TRow (label: val) (tcells: "val list") (origin: 'a)

datatype 'a table = Table (tcolumns: "string list") (trows: "'a trow list")

text \<open>The cell of a row under a column label; a row that is too short has missing cells.\<close>

definition cell :: "string list \<Rightarrow> 'a trow \<Rightarrow> string \<Rightarrow> val" where
  "cell cols r name = (case map_of (zip cols (tcells r)) name of Some v \<Rightarrow> v | None \<Rightarrow> Missing)"

text \<open>\<open>df[name]\<close>: the cells of a column, KeyError (\<open>None\<close>) when no column has the label.\<close>

definition getitem_column :: "'a table \<Rightarrow> string \<Rightarrow> val list option" where
  "getitem_column df name =
     (if name \<in> set (tcolumns df) then Some (map (\<lambda>r. cell (tcolumns df) r name) (trows df))
      else None)"

text \<open>
  \<open>==\<close> between a cell and a value: NaN is equal to nothing, itself included. Cells that
  hold a list are not compared by this program.
\<close>

definition eq_val :: "val \<Rightarrow> val \<Rightarrow> bool" where
  "eq_val a b = (a = b \<and> a \<noteq> Missing \<and> a \<noteq> Object)"

text \<open>\<open>df[df[name] == v]\<close> and \<open>df[df[name] != v]\<close>, for a frame that has the column.\<close>

definition rows_eq :: "'a table \<Rightarrow> string \<Rightarrow> val \<Rightarrow> 'a trow list" where
  "rows_eq df name v = filter (\<lambda>r. eq_val (cell (tcolumns df) r name) v) (trows df)"

definition rows_ne :: "'a table \<Rightarrow> string \<Rightarrow> val \<Rightarrow> 'a trow list" where
  "rows_ne df name v = filter (\<lambda>r. \<not> eq_val (cell (tcolumns df) r name) v) (trows df)"

text \<open>
  \<open>df.drop(name, axis=1, inplace=True)\<close>: the table without the column, KeyError (\<open>None\<close>)
  when no column has the label.
\<close>

definition drop_cells :: "string list \<Rightarrow> string \<Rightarrow> val list \<Rightarrow> val list" where
  "drop_cells cols name cs = map snd (filter (\<lambda>(c, v). c \<noteq> name) (zip cols cs))"

definition drop_column :: "string \<Rightarrow> 'a table \<Rightarrow> 'a table option" where
  "drop_column name df =
     (if name \<in> set (tcolumns df)
      then Some (Table (filter (\<lambda>c. c \<noteq> name) (tcolumns df))
                   (map (\<lambda>r. TRow (label r) (drop_cells (tcolumns df) name (tcells r)) (origin r))
                        (trows df)))
      else None)"

text \<open>
  \<open>df[name] = v\<close> with a scalar: every cell of the column becomes \<open>v\<close>; a new column is put
  after the others.
\<close>

definition set_cells :: "string list \<Rightarrow> string \<Rightarrow> val \<Rightarrow> val list \<Rightarrow> val list" where
  "set_cells cols name v cs =
     (if name \<in> set cols then map (\<lambda>(c, x). if c = name then v else x) (zip cols cs)
      else cs @ [v])"

definition setitem_column :: "string \<Rightarrow> val \<Rightarrow> 'a table \<Rightarrow> 'a table" where
  "setitem_column name v df =
     Table (if name \<in> set (tcolumns df) then tcolumns df else tcolumns df @ [name])
       (map (\<lambda>r. TRow (label r) (set_cells (tcolumns df) name v (tcells r)) (origin r)) (trows df))"

text \<open>
  \<open>pd.concat([a, b], axis=0)\<close>: the columns of \<open>a\<close> followed by the columns that only \<open>b\<close>
  has; the rows of \<open>a\<close>, then the rows of \<open>b\<close>, with missing cells where a frame lacks a
  column.
\<close>

definition reindex_columns :: "string list \<Rightarrow> 'a table \<Rightarrow> 'a trow list" where
  "reindex_columns cols df =
     map (\<lambda>r. TRow (label r) (map (cell (tcolumns df) r) cols) (origin r)) (trows df)"

definition concat_frames :: "'a table \<Rightarrow> 'a table \<Rightarrow> 'a table" where
  "concat_frames a b =
     (let cols = tcolumns a @ filter (\<lambda>c. c \<notin> set (tcolumns a)) (tcolumns b)
      in Table cols (reindex_columns cols a @ reindex_columns cols b))"

definition map_origin :: "('a \<Rightarrow> 'b) \<Rightarrow> 'a table \<Rightarrow> 'b table" where
  "map_origin g df = Table (tcolumns df) (map (\<lambda>r. TRow (label r) (tcells r) (g (origin r))) (trows df))"

text \<open>
  \<open>np.array(...)\<close> of cells, as \<open>euclidean_distances\<close> takes it: scikit-learn converts the
  array to floats and refuses NaN. A text stands for a string that spells no number (a uri,
  a name, a bracketed list of keys); neither it nor a list can be converted.
\<close>

definition as_float :: "val \<Rightarrow> real option" where
  "as_float v = (case v of Num x \<Rightarrow> Some x | _ \<Rightarrow> None)"

definition as_floats :: "val list \<Rightarrow> real list option" where
  "as_floats vs = those (map as_float vs)"

subsection \<open>compare\_occupation\_similarity\<close>

text \<open>
  \<open>euclidean_distances(X, Y)\<close> for matrices: entry \<open>[i][j]\<close> is the distance of row \<open>i\<close> of
  \<open>X\<close> to row \<open>j\<close> of \<open>Y\<close>. Both need a row and rows of one length.
\<close>

definition euclidean_distances_2d :: "real list list \<Rightarrow> real list list \<Rightarrow> pyerr + real list list" where
  "euclidean_distances_2d X Y =
     (case X of
        [] \<Rightarrow> Inl ValueError
      | x # _ \<Rightarrow>
          if Y \<noteq> [] \<and> list_all (\<lambda>v. length v = length x) (X @ Y)
          then Inr (map (\<lambda>x. map (euclidean x) Y) X)
          else Inl ValueError)"

text \<open>
  \<open>compare_occupation_similarity\<close>. The result is the answer, or the exception, together
  with \<open>job_fs_profile\<close> as the call leaves it: line 68 drops the column \<open>conceptUri\<close> of the
  frame that was passed in, and raises KeyError when the frame has no such column.
  \<open>broader_job_fs_profile\<close> is the array of the cells of the broader profile. Both arrays are
  reshaped with \<open>reshape(-1, 1)\<close> into one column, so that every cell is a row of its own,
  and \<open>similarities[0][0]\<close> is read.
\<close>

definition compare_occupation_similarity ::
  "'a table \<Rightarrow> val list \<Rightarrow> (pyerr + bool) \<times> 'a table" where
  "compare_occupation_similarity job_fs_profile broader_job_fs_profile =
     (case drop_column ''conceptUri'' job_fs_profile of
        None \<Rightarrow> (Inl KeyError, job_fs_profile)
      | Some dropped \<Rightarrow>
          ((case (as_floats (concat (map tcells (trows dropped))),
                  as_floats broader_job_fs_profile) of
              (Some job_fs_profile_arr, Some broader_job_fs_profile_arr) \<Rightarrow>
                 (case euclidean_distances_2d (map (\<lambda>a. [a]) job_fs_profile_arr)
                         (map (\<lambda>b. [b]) broader_job_fs_profile_arr) of
                    Inl e \<Rightarrow> Inl e
                  | Inr similarities \<Rightarrow>
                      (case similarities of
                         (euclidean_distance # _) # _ \<Rightarrow>
                            Inr (euclidean_distance < max_euclidean_distance)
                       | _ \<Rightarrow> Inl IndexError))
            | _ \<Rightarrow> Inl ValueError),
           dropped))"

subsection \<open>refine\_recommendations\<close>

text \<open>
  \<open>self.broader_occupations.loc[... == uri, "broaderUri"].iloc[0]\<close>: the first broader uri
  recorded for \<open>uri\<close>, IndexError when there is none.
\<close>

definition first_broaderUri :: "(string \<times> string) list \<Rightarrow> string \<Rightarrow> pyerr + string" where
  "first_broaderUri broader_occupations uri =
     (case map_of broader_occupations uri of None \<Rightarrow> Inl IndexError | Some b \<Rightarrow> Inr b)"

text \<open>The same lookup for a cell of the column \<open>conceptUri\<close>: only a text can be recorded.\<close>

definition first_broaderUri_of :: "(string \<times> string) list \<Rightarrow> val \<Rightarrow> pyerr + string" where
  "first_broaderUri_of broader_occupations v =
     (case v of Text uri \<Rightarrow> first_broaderUri broader_occupations uri | _ \<Rightarrow> Inl IndexError)"

text \<open>
  Lines 106 to 111. \<open>occ_fs_profile_scaled_df.loc[label]\<close> looks the label up in the index:
  KeyError (\<open>None\<close>) without a row of that label. One row gives a Series of its cells, whose
  name is the label. Several rows give a frame: its array holds the cells of all of them,
  and \<open>pd.DataFrame(...).T.iloc[0].name\<close> is then the first column label, IndexError
  (\<open>None\<close>) when there is no column. The result is the array and the name.
\<close>

definition loc_label :: "'a table \<Rightarrow> string \<Rightarrow> (val list \<times> string) option" where
  "loc_label df lbl =
     (case filter (\<lambda>r. label r = Text lbl) (trows df) of
        [] \<Rightarrow> None
      | [r] \<Rightarrow> Some (tcells r, lbl)
      | rs \<Rightarrow> (case tcolumns df of [] \<Rightarrow> None | c # _ \<Rightarrow> Some (concat (map tcells rs), c)))"

text \<open>
  Line 100: \<open>recommended_jobs.loc[recommended_jobs["conceptUri"] == recom_uri,
  recommended_jobs.columns[0:11]]\<close>, a new frame of the first eleven columns.
\<close>

definition job_fs_profile_of :: "'a table \<Rightarrow> val \<Rightarrow> 'a table" where
  "job_fs_profile_of recommended_jobs recom_uri =
     Table (take 11 (tcolumns recommended_jobs))
       (map (\<lambda>r. TRow (label r) (take 11 (tcells r)) (origin r))
            (rows_eq recommended_jobs ''conceptUri'' recom_uri))"

text \<open>
  Lines 114 and 118: the rows of \<open>transformed_profiles_preferred\<close> with \<open>uri\<close> in the column
  \<open>conceptUri\<close>, as a new frame, with \<open>new_broader_uri\<close> in the column \<open>broaderUri\<close>.
\<close>

definition broader_concept :: "'b table \<Rightarrow> string \<Rightarrow> string \<Rightarrow> 'b table" where
  "broader_concept transformed_profiles_preferred uri new_broader_uri =
     setitem_column ''broaderUri'' (Text new_broader_uri)
       (Table (tcolumns transformed_profiles_preferred)
          (rows_eq transformed_profiles_preferred ''conceptUri'' (Text uri)))"

text \<open>
  The body of the \<open>try\<close> block for a candidate, given its frame \<open>job_fs_profile\<close> and its
  broader uri: \<open>Some\<close> of the frame that replaces the candidate, or \<open>None\<close> when the
  candidate stays. Every exception raised in the block is swallowed by the bare \<open>except\<close>,
  which goes on with the next candidate: the KeyError of line 106 for a broader uri that is
  no label of \<open>occ_fs_profile_scaled_df\<close>, the exceptions of
  \<open>compare_occupation_similarity\<close>, the KeyError of line 114 for a
  \<open>transformed_profiles_preferred\<close> without a column \<open>conceptUri\<close>, and the IndexError of line
  116 for a broader occupation without a broader uri of its own. The frame that
  \<open>compare_occupation_similarity\<close> changes is the selection of line 100, which nothing
  reads afterwards.
\<close>

definition broader_replacement ::
  "(string \<times> string) list \<Rightarrow> 'b table \<Rightarrow> 'c table \<Rightarrow> 'a table \<Rightarrow> string \<Rightarrow> 'b table option" where
  "broader_replacement broader_occupations transformed_profiles_preferred occ_fs_profile_scaled_df
       job_fs_profile recom_broader_uri =
     (case loc_label occ_fs_profile_scaled_df recom_broader_uri of
        None \<Rightarrow> None
      | Some (broader_fs_profile, broader_fs_profile_recom_concept_uri) \<Rightarrow>
         (case fst (compare_occupation_similarity job_fs_profile broader_fs_profile) of
            Inl e \<Rightarrow> None
          | Inr False \<Rightarrow> None
          | Inr True \<Rightarrow>
             (case getitem_column transformed_profiles_preferred ''conceptUri'' of
                None \<Rightarrow> None
              | Some uris \<Rightarrow>
                 (case first_broaderUri broader_occupations broader_fs_profile_recom_concept_uri of
                    Inl e \<Rightarrow> None
                  | Inr new_broader_uri \<Rightarrow>
                      Some (broader_concept transformed_profiles_preferred
                              broader_fs_profile_recom_concept_uri new_broader_uri)))))"

text \<open>
  The loop of \<open>refine_recommendations\<close> over the column \<open>conceptUri\<close> as it was when the
  loop started, on the pair \<open>(recommended_jobs, recommended_jobs_broader_occ)\<close>. The
  lookup of the candidate's broader uri in line 101 stands before the \<open>try\<close>: its
  IndexError ends the function.
\<close>

fun refine_loop ::
  "(string \<times> string) list \<Rightarrow> 'b table \<Rightarrow> 'c table \<Rightarrow> val list \<Rightarrow>
   'a table \<times> 'b table \<Rightarrow> pyerr + ('a table \<times> 'b table)" where
  "refine_loop broader_occupations tpp occ [] state = Inr state"
| "refine_loop broader_occupations tpp occ (recom_uri # uris)
       (recommended_jobs, recommended_jobs_broader_occ) =
     (let job_fs_profile = job_fs_profile_of recommended_jobs recom_uri
      in case first_broaderUri_of broader_occupations recom_uri of
           Inl e \<Rightarrow> Inl e
         | Inr recom_broader_uri \<Rightarrow>
            (case broader_replacement broader_occupations tpp occ job_fs_profile
                    recom_broader_uri of
               None \<Rightarrow>
                 refine_loop broader_occupations tpp occ uris
                   (recommended_jobs, recommended_jobs_broader_occ)
             | Some broader_fs_profile_recom_concept \<Rightarrow>
                 refine_loop broader_occupations tpp occ uris
                   (Table (tcolumns recommended_jobs)
                      (rows_ne recommended_jobs ''conceptUri'' recom_uri),
                    concat_frames recommended_jobs_broader_occ
                      broader_fs_profile_recom_concept)))"

text \<open>
  \<open>refine_recommendations\<close>: KeyError when \<open>recommended_jobs\<close> has no column \<open>conceptUri\<close>
  (line 99); otherwise the candidates that stayed, followed by the replacing rows. The two
  kinds of row have different origins, marked \<open>Inl\<close> and \<open>Inr\<close>.
\<close>

definition refine_recommendations ::
  "(string \<times> string) list \<Rightarrow> 'a table \<Rightarrow> 'b table \<Rightarrow> 'c table \<Rightarrow> pyerr + ('a + 'b) table" where
  "refine_recommendations broader_occupations recommended_jobs transformed_profiles_preferred
       occ_fs_profile_scaled_df =
     (case getitem_column recommended_jobs ''conceptUri'' of
        None \<Rightarrow> Inl KeyError
      | Some uris \<Rightarrow>
         (case refine_loop broader_occupations transformed_profiles_preferred
                 occ_fs_profile_scaled_df uris
                 (recommended_jobs, Table (tcolumns recommended_jobs) []) of
            Inl e \<Rightarrow> Inl e
          | Inr (kept, recommended_jobs_broader_occ) \<Rightarrow>
              Inr (concat_frames (map_origin Inl kept)
                     (map_origin Inr recommended_jobs_broader_occ))))"




subsection \<open>get\_comfort\_zone\_recommendation\<close>

text \<open>
  \<open>recommended_jobs.merge(broader_occupations[['conceptUri', 'broaderUri']], on='conceptUri',
  how='left')\<close>, for a frame that has \<open>conceptUri\<close> as a column (KeyError otherwise): every
  row once for each broader uri recorded for it, and once with a missing \<open>broaderUri\<close> when
  none is recorded, under a new index that counts the rows. When the frame has a column
  \<open>broaderUri\<close> already the merge renames both, and line 151 raises KeyError.
\<close>

definition merge_broader :: "'a table \<Rightarrow> (string \<times> string) list \<Rightarrow> pyerr + 'a table" where
  "merge_broader top_jobs broader_occupations =
     (if ''conceptUri'' \<notin> set (tcolumns top_jobs) \<or> ''broaderUri'' \<in> set (tcolumns top_jobs)
      then Inl KeyError
      else
        (let cols = tcolumns top_jobs;
             merged = concat (map (\<lambda>r.
                 case filter (\<lambda>(c, b). eq_val (cell cols r ''conceptUri'') (Text c))
                        broader_occupations of
                   [] \<Rightarrow> [(r, Missing)]
                 | ms \<Rightarrow> map (\<lambda>(c, b). (r, Text b)) ms) (trows top_jobs))
         in Inr (Table (cols @ [''broaderUri''])
                   (map (\<lambda>(i, (r, b)). TRow (Num (real i))
                                         (map (cell cols r) cols @ [b]) (origin r))
                        (zip [0..<length merged] merged)))))"

text \<open>\<open>drop_duplicates(subset=['broaderUri'], keep='first')\<close>; \<open>seen\<close> are the values met so far.\<close>

primrec drop_duplicates :: "string list \<Rightarrow> val list \<Rightarrow> 'a trow list \<Rightarrow> 'a trow list" where
  "drop_duplicates cols seen [] = []"
| "drop_duplicates cols seen (r # rs) =
     (if cell cols r ''broaderUri'' \<in> set seen then drop_duplicates cols seen rs
      else r # drop_duplicates cols (cell cols r ''broaderUri'' # seen) rs)"

text \<open>\<open>DataFrame.head(n)\<close> of a table.\<close>

definition thead :: "nat \<Rightarrow> 'a table \<Rightarrow> 'a table" where
  "thead n df = Table (tcolumns df) (take n (trows df))"

text \<open>
  \<open>get_comfort_zone_recommendation\<close>; \<open>E\<close> is the content of the ESCO files at \<open>esco_path\<close>.
  The last line drops the column \<open>broaderUri\<close> of the frame that \<open>refine_recommendations\<close>
  returned.
\<close>

definition get_comfort_zone_recommendation ::
  "'a table \<Rightarrow> 'b table \<Rightarrow> 'c table \<Rightarrow> esco \<Rightarrow> pyerr + ('a + 'b) table" where
  "get_comfort_zone_recommendation top_jobs transformed_profiles_preferred transformed_profiles E =
     (let broader_occupations = broaderRelationsOccPillar E
      in case merge_broader top_jobs broader_occupations of
           Inl e \<Rightarrow> Inl e
         | Inr merged \<Rightarrow>
            (let recommended_jobs =
                   Table (tcolumns merged) (drop_duplicates (tcolumns merged) [] (trows merged))
             in case refine_recommendations broader_occupations (thead 5 recommended_jobs)
                       transformed_profiles_preferred transformed_profiles of
                  Inl e \<Rightarrow> Inl e
                | Inr final_recom \<Rightarrow>
                    (case drop_column ''broaderUri'' final_recom of
                       None \<Rightarrow> Inl KeyError
                     | Some final \<Rightarrow> Inr final)))"

section \<open>RecommenderPipeline\<close>

text \<open>
  recommender\_pipeline.py. The pipeline holds a \<open>Matcher\<close> and a \<open>Recommender\<close> object
  and calls their methods; the model takes them as records of functions, so that every
  statement about the pipeline holds for each implementation of the two interfaces.
\<close>

record ('t, 'p, 'u, 'k, 'a, 'm) matcher =
  m_extract_user_rating :: "'t \<Rightarrow> pyerr + (string list option \<times> string list option)"
  m_filter_by_rating ::
    "'p \<Rightarrow> 'u \<Rightarrow> 'k \<Rightarrow> string \<Rightarrow> preferences \<Rightarrow> job_history \<Rightarrow>
     string list option \<Rightarrow> string list option \<Rightarrow> pyerr + ('a frame \<times> 'a frame)"
  m_calculate_distances :: "'t \<Rightarrow> 'a frame \<Rightarrow> pyerr + 'm"

record ('p, 'm, 'r) recommender =
  r_get_comfort_zone_recommendation :: "'m \<Rightarrow> 'p \<Rightarrow> 'p \<Rightarrow> string \<Rightarrow> pyerr + 'r"
  r_get_recommendations :: "'m \<Rightarrow> pyerr + 'r"

text \<open>\<open>path_dict\<close>, the two entries the recommender pipeline reads.\<close>

definition ESCO_path :: "string \<Rightarrow> string" where
  "ESCO_path data_path = data_path @ ''ESCO/''"

definition ESCO2kldb :: "string \<Rightarrow> string" where
  "ESCO2kldb data_path = data_path @ ''Misc/esco2kldb_multiple_assignment.csv''"

text \<open>
  \<open>df[1]\<close> on a DataFrame looks up the column labelled \<open>1\<close>; the column labels of
  every frame of this program are strings, so the lookup raises KeyError.
\<close>

definition df_getitem_int :: "'a frame \<Rightarrow> nat \<Rightarrow> pyerr + 'a frame" where
  "df_getitem_int f i = Inl KeyError"

text \<open>
  \<open>match_user_profile\<close>, lines 128 to 144: the bucket handed to \<open>calculate_distances\<close>.
  In the first branch \<open>filtered_profiles\<close> is rebound to the first frame of the pair
  before \<open>filtered_profiles[1]\<close> is evaluated, so that subscript is applied to a frame.
\<close>

definition select_bucket :: "string list option \<Rightarrow> 'a frame \<times> 'a frame \<Rightarrow> pyerr + 'a frame" where
  "select_bucket user_profile_rating_list filtered_profiles =
     (if is_nan_or_empty user_profile_rating_list then
        (let filtered = fst filtered_profiles
         in if df_empty filtered then df_getitem_int filtered 1 else Inr filtered)
      else if df_empty (fst filtered_profiles)
              \<or> (case user_profile_rating_list of None \<Rightarrow> False | Some l \<Rightarrow> length l = 0)
        then Inr (snd filtered_profiles)
      else Inr (fst filtered_profiles))"

text \<open>
  \<open>match_user_profile\<close>. \<open>read_csv\<close> is the file system as \<open>pd.read_csv\<close> sees it.
  With \<open>learning_zone\<close> set the source calls \<open>zone_calculator()\<close> without its two required
  arguments, which raises TypeError. The second component of the result is the unfiltered
  \<open>transformed_profiles\<close>.
\<close>

definition match_user_profile ::
  "('t, 'p, 'u, 'k, 'a, 'm) matcher \<Rightarrow> (string \<Rightarrow> pyerr + 'k) \<Rightarrow> string \<Rightarrow>
   't \<Rightarrow> 'p \<Rightarrow> 'u \<Rightarrow> preferences \<Rightarrow> job_history \<Rightarrow> bool \<Rightarrow> pyerr + ('m \<times> 'p)" where
  "match_user_profile M read_csv data_path target_profile transformed_profiles user_profiles
       preferences job_history learning_zone =
     (case read_csv (ESCO2kldb data_path) of
        Inl e \<Rightarrow> Inl e
      | Inr esco_kldb \<Rightarrow>
     (case m_extract_user_rating M target_profile of
        Inl e \<Rightarrow> Inl e
      | Inr (user_profile_rating_list, rated_conceptUri_list) \<Rightarrow>
     (case m_filter_by_rating M transformed_profiles user_profiles esco_kldb (ESCO_path data_path)
             preferences job_history rated_conceptUri_list user_profile_rating_list of
        Inl e \<Rightarrow> Inl e
      | Inr filtered_profiles \<Rightarrow>
     (case select_bucket user_profile_rating_list filtered_profiles of
        Inl e \<Rightarrow> Inl e
      | Inr bucket \<Rightarrow>
     (case m_calculate_distances M target_profile bucket of
        Inl e \<Rightarrow> Inl e
      | Inr matchings \<Rightarrow>
          if learning_zone then Inl TypeError else Inr (matchings, transformed_profiles))))))"

text \<open>\<open>recommend_occupation\<close>.\<close>

definition recommend_occupation ::
  "('p, 'm, 'r) recommender \<Rightarrow> string \<Rightarrow> 'm \<Rightarrow> 'p \<Rightarrow> 'p \<Rightarrow> bool \<Rightarrow> pyerr + 'r" where
  "recommend_occupation R data_path matches transformed_profiles_preferred transformed_profiles
       comfort_zone =
     (if comfort_zone
      then r_get_comfort_zone_recommendation R matches transformed_profiles_preferred
             transformed_profiles (ESCO_path data_path)
      else r_get_recommendations R matches)"

text \<open>
  What a call can do to its caller: return a value, let an exception propagate, or raise
  \<open>SystemExit\<close> through \<open>sys.exit()\<close>, which ends the interpreter unless something above
  catches it.
\<close>

datatype 'r outcome = Returned 'r | Raised pyerr | SystemExit

text \<open>
  \<open>run\<close>: both stages inside one \<open>try\<close>; the handler prints the exception and calls
  \<open>sys.exit()\<close>. \<open>run\<close> always asks for the comfort zone.
\<close>

definition run ::
  "('t, 'p, 'u, 'k, 'a, 'm) matcher \<Rightarrow> ('p, 'm, 'r) recommender \<Rightarrow> (string \<Rightarrow> pyerr + 'k) \<Rightarrow>
   string \<Rightarrow> 't \<Rightarrow> preferences \<Rightarrow> job_history \<Rightarrow> 'p \<Rightarrow> 'u \<Rightarrow> 'r outcome" where
  "run M R read_csv data_path target_profile preferences job_history transformed_profiles
       user_profiles =
     (case match_user_profile M read_csv data_path target_profile transformed_profiles
             user_profiles preferences job_history False of
        Inl e \<Rightarrow> SystemExit
      | Inr (matches, transformed_profiles_preferred) \<Rightarrow>
     (case recommend_occupation R data_path matches transformed_profiles_preferred
             transformed_profiles True of
        Inl e \<Rightarrow> SystemExit
      | Inr recommendations \<Rightarrow> Returned recommendations))"

subsection \<open>The pipeline of the service\<close>

text \<open>
  api/app.py builds the pipeline from a \<open>JobMatcher\<close> and a \<open>JobRecommender\<close>. \<open>method\<close> and
  \<open>argsort\<close> are as in \<open>calculate_distances\<close>; \<open>read_esco\<close> is the content of the ESCO files
  under a path. At this level the frames the two objects change in place are not
  followed.
\<close>

definition JobMatcher ::
  "string \<Rightarrow> (real list \<Rightarrow> nat list) \<Rightarrow> (string \<Rightarrow> esco) \<Rightarrow>
   (target_profile, 'a frame, user_profiles, (string \<times> string) list,
    ('a \<times> string) + expanded, ((('a \<times> string) + expanded) \<times> real) frame) matcher" where
  "JobMatcher method argsort read_esco =
     \<lparr>m_extract_user_rating = (\<lambda>user_profile. Inr (extract_user_rating user_profile)),
      m_filter_by_rating =
        (\<lambda>transformed_profiles user_profiles esco_kldb esco_path preferences job_history
            rated_conceptUri_list user_profile_rating_list.
           fst (filter_by_rating transformed_profiles user_profiles esco_kldb (read_esco esco_path)
                  preferences job_history rated_conceptUri_list user_profile_rating_list)),
      m_calculate_distances =
        (\<lambda>query_vector job_fs_profiles.
           fst (calculate_distances method argsort (profile_cells query_vector) job_fs_profiles))\<rparr>"

text \<open>
  The frames of the matcher as the tables that the recommender receives; the origin of a
  row of the table is the row of the frame.

  The pool of occupations, as api/app.py reads it and as the matcher addresses it: the uris
  are the index, the columns are the numeric ones. There is no column \<open>conceptUri\<close>.
\<close>

definition pool_table :: "unit frame \<Rightarrow> unit row table" where
  "pool_table f =
     Table (columns f) (map (\<lambda>r. TRow (Text (conceptUri r)) (map Num (cells r)) r) (rows f))"

text \<open>
  The matches. A bucket of occupations went through the merge of \<open>filter_by_preferences\<close>,
  which joins the index level \<open>conceptUri\<close> of the pool with the column of that name of
  \<open>esco2kldb\<close>: the result has a new index and the key as its first column, then the columns
  of the pool, then \<open>kldb_keys\<close>; \<open>calculate_distances\<close> adds \<open>Distance\<close>. A bucket of
  reference users has the columns of the user profiles, then \<open>conceptUri\<close>,
  \<open>single_job_rating\<close> and \<open>ID\<close> from \<open>expand_rows\<close>, then \<open>num_preferences\<close> and
  \<open>Distance\<close>; the order of the columns of the user profiles is that of their file, for
  which the order of the record stands here, and \<open>ID\<close> is the index of the user profiles,
  which is kept as an object. The index labels, whatever they are, are not read: the merge
  of \<open>get_comfort_zone_recommendation\<close> numbers the rows anew. No statement below depends
  on more of these layouts than that the uris are a column.
\<close>

type_synonym match = "((unit \<times> string) + expanded) \<times> real"

definition match_columns :: "match frame \<Rightarrow> string list" where
  "match_columns f =
     (if list_all (\<lambda>r. isl (fst (extra r))) (rows f)
      then [''conceptUri''] @ columns f @ [''kldb_keys'', ''Distance'']
      else [''user_id''] @ columns f
           @ [''professional_interests'', ''job_recommendations'', ''job_ratings'',
              ''conceptUri'', ''single_job_rating'', ''ID'', ''num_preferences'', ''Distance''])"

definition match_cells :: "match row \<Rightarrow> val list" where
  "match_cells r =
     (case extra r of
        (Inl (u, keys), distance) \<Rightarrow>
          [Text (conceptUri r)] @ map Num (cells r) @ [Text keys, Num distance]
      | (Inr e, distance) \<Rightarrow>
          [Text (user_id (profile e))] @ map Num (cells r)
          @ [case professional_interests (profile e) of None \<Rightarrow> Missing | Some i \<Rightarrow> Text i,
             Object, Object, Text (conceptUri r), Text (single_job_rating e), Object, Object,
             Num distance])"

definition matches_table :: "match frame \<Rightarrow> match row table" where
  "matches_table f = Table (match_columns f) (map (\<lambda>r. TRow Missing (match_cells r) r) (rows f))"

text \<open>
  The recommendations as a frame again: every row is a row of \<open>matches\<close> (marked \<open>Inl\<close>) or a
  row of the pool that replaces one (marked \<open>Inr\<close>).
\<close>

definition recommendations_frame :: "string list \<Rightarrow> (match row + unit row) table \<Rightarrow> (match + unit) frame" where
  "recommendations_frame cols df =
     Frame cols (map (\<lambda>r. case origin r of Inl m \<Rightarrow> map_extra Inl m | Inr p \<Rightarrow> map_extra Inr p)
                     (trows df))"

definition JobRecommender ::
  "(string \<Rightarrow> esco) \<Rightarrow> (unit frame, match frame, (match + unit) frame) recommender" where
  "JobRecommender read_esco =
     \<lparr>r_get_comfort_zone_recommendation =
        (\<lambda>top_jobs transformed_profiles_preferred transformed_profiles esco_path.
           map_sum id (recommendations_frame (columns top_jobs))
             (get_comfort_zone_recommendation (matches_table top_jobs)
                (pool_table transformed_profiles_preferred) (pool_table transformed_profiles)
                (read_esco esco_path))),
      r_get_recommendations = (\<lambda>matches. Inr (map_frame Inl (get_recommendations matches)))\<rparr>"

section \<open>Properties of the matcher\<close>

subsection \<open>The ranking of calculate\_distances\<close>

lemma sort_key_zip_nth:
  "\<forall>z \<in> set zs. xs ! snd z = fst z \<Longrightarrow> map (\<lambda>i. xs ! i) (map snd zs) = map fst zs"
  by (induction zs) auto

lemma set_zip_upt_nth: "z \<in> set (zip xs [0..<length xs]) \<Longrightarrow> xs ! snd z = fst z"
  by (auto simp: set_zip)

lemma stable_argsort_is_argsort: "is_argsort (stable_argsort xs) xs"
proof -
  let ?zs = "zip xs [0..<length xs]"
  let ?s = "sort_key fst ?zs"
  have m: "mset ?s = mset ?zs" by simp
  have "mset (map snd ?s) = mset (map snd ?zs)" by (simp only: mset_map m)
  then have ms: "mset (map snd ?s) = mset [0..<length xs]" by simp
  have d: "distinct (map snd ?s)"
    using ms by (metis distinct_upt mset_eq_imp_distinct_iff)
  have st: "set (map snd ?s) = {..<length xs}"
    using ms by (metis atLeast_upt mset_eq_setD)
  have "\<forall>z \<in> set ?s. xs ! snd z = fst z"
    using set_zip_upt_nth by (metis set_sort)
  then have "map (\<lambda>i. xs ! i) (map snd ?s) = map fst ?s" by (rule sort_key_zip_nth)
  moreover have "sorted (map fst ?s)" by (rule sorted_sort_key)
  ultimately have "sorted (map (\<lambda>i. xs ! i) (map snd ?s))" by (simp only:)
  then show ?thesis
    unfolding is_argsort_def stable_argsort_def using d st by blast
qed


lemma rows_rename_in_place: "rows (rename_in_place f) = rows f"
  by (simp add: rename_in_place_def)

lemma iloc_with_distance_rows:
  assumes "iloc_with_distance f sims idx = Inr out"
  shows "rows out = map (\<lambda>i. Row (conceptUri (rows f ! i)) (cells (rows f ! i))
                          (extra (rows f ! i), sims ! i)) idx"
    and "columns out = columns f"
  using assms by (auto simp: iloc_with_distance_def split: if_splits)

lemma iloc_with_distance_Distance:
  assumes "iloc_with_distance f sims idx = Inr out"
  shows "map Distance (rows out) = map (\<lambda>i. sims ! i) idx"
  using iloc_with_distance_rows(1)[OF assms] by (simp add: Distance_def comp_def)

lemma sorted_lt_pos:
  fixes xs :: "real list"
  assumes "sorted xs" "i < length xs" "j < length xs" "xs ! i < xs ! j"
  shows "i < j"
proof (rule ccontr)
  assume "\<not> i < j"
  then have "j \<le> i" by simp
  then have "xs ! j \<le> xs ! i" using assms(1,2) by (simp add: sorted_nth_mono)
  then show False using assms(4) by simp
qed

lemma sorted_rev_gt_pos:
  fixes xs :: "real list"
  assumes "sorted (rev xs)" "i < length xs" "j < length xs" "xs ! j < xs ! i"
  shows "i < j"
proof (rule ccontr)
  assume "\<not> i < j"
  then have "j \<le> i" by simp
  then have "xs ! i \<le> xs ! j" using assms(1,2) by (simp add: sorted_rev_nth_mono)
  then show False using assms(4) by simp
qed

lemma calculate_distances_cases:
  assumes "fst (calculate_distances method argsort q f) = Inr out"
  shows "\<exists>u X sims. getitem future_skill_col_names q = Some u
           \<and> df_values future_skill_col_names (rename_in_place f) = Some X
           \<and> (method = ''euclidean'' \<and> euclidean_distances u X = Inr sims
                \<and> iloc_with_distance (rename_in_place f) sims (argsort sims) = Inr out
              \<or> method = ''cosine'' \<and> cosine_similarity u X = Inr sims
                \<and> iloc_with_distance (rename_in_place f) sims (rev (argsort sims)) = Inr out)"
  using assms
  by (auto simp: calculate_distances_def Let_def split: option.splits sum.splits if_splits)


lemma those_length: "those xs = Some ys \<Longrightarrow> length ys = length xs"
  by (induction xs arbitrary: ys) (auto split: option.splits)

lemma df_values_length: "df_values names f = Some X \<Longrightarrow> length X = length (rows f)"
  by (auto simp: df_values_def dest: those_length)

lemma euclidean_distances_Inr:
  "euclidean_distances u X = Inr sims \<Longrightarrow> sims = map (euclidean u) X"
  by (auto simp: euclidean_distances_def split: if_splits)

lemma cosine_similarity_Inr:
  "cosine_similarity u X = Inr sims \<Longrightarrow> sims = map (cosine u) X"
  by (auto simp: cosine_similarity_def split: if_splits)

lemma is_argsort_rev: "is_argsort p xs \<Longrightarrow> distinct (rev p) \<and> set (rev p) = {..<length xs}"
  by (simp add: is_argsort_def)

text \<open>
  Claim C4, as far as the code goes. Let \<open>argsort\<close> return, for every array, indices that
  sort it, and let \<open>calculate_distances\<close> return the frame \<open>out\<close>. Then the method is one of the
  two known ones; the rows of \<open>out\<close> are the rows of the argument in a rearranged order,
  each with its Euclidean distance (its cosine similarity, for the cosine method) to the
  user's vector in \<open>Distance\<close>; for the Euclidean method a row with a smaller distance stands
  before every row with a larger one; for the cosine method a row with a larger similarity
  stands before every row with a smaller one. Nothing is said about rows with equal scores:
  their order is whatever \<open>argsort\<close> leaves, reversed for the cosine method.
\<close>

theorem calculate_distances_ranking:
  assumes A: "\<forall>xs. is_argsort (argsort xs) xs"
      and R: "fst (calculate_distances method argsort query_vector job_fs_profiles) = Inr out"
  shows "(method = ''euclidean'' \<or> method = ''cosine'')
       \<and> (\<exists>u X p. getitem future_skill_col_names query_vector = Some u
             \<and> df_values future_skill_col_names (rename_in_place job_fs_profiles) = Some X
             \<and> distinct p \<and> set p = {..<length (rows job_fs_profiles)}
             \<and> rows out =
                 map (\<lambda>i. Row (conceptUri (rows job_fs_profiles ! i)) (cells (rows job_fs_profiles ! i))
                        (extra (rows job_fs_profiles ! i),
                         if method = ''euclidean'' then euclidean u (X ! i) else cosine u (X ! i))) p)
       \<and> (method = ''euclidean'' \<longrightarrow>
            (\<forall>i j. i < length (rows out) \<and> j < length (rows out)
                   \<and> Distance (rows out ! i) < Distance (rows out ! j) \<longrightarrow> i < j))
       \<and> (method = ''cosine'' \<longrightarrow>
            (\<forall>i j. i < length (rows out) \<and> j < length (rows out)
                   \<and> Distance (rows out ! j) < Distance (rows out ! i) \<longrightarrow> i < j))"
proof -
  let ?f = "rename_in_place job_fs_profiles"
  let ?rs = "rows job_fs_profiles"
  from calculate_distances_cases[OF R] obtain u X sims where
    u: "getitem future_skill_col_names query_vector = Some u" and
    X: "df_values future_skill_col_names ?f = Some X" and
    c: "method = ''euclidean'' \<and> euclidean_distances u X = Inr sims
          \<and> iloc_with_distance ?f sims (argsort sims) = Inr out
        \<or> method = ''cosine'' \<and> cosine_similarity u X = Inr sims
          \<and> iloc_with_distance ?f sims (rev (argsort sims)) = Inr out"
    by blast
  have lenX: "length X = length ?rs"
    using df_values_length[OF X] by (simp add: rows_rename_in_place)
  have as: "is_argsort (argsort sims) sims" using A by blast
  from c show ?thesis
  proof
    assume e: "method = ''euclidean'' \<and> euclidean_distances u X = Inr sims
          \<and> iloc_with_distance ?f sims (argsort sims) = Inr out"
    then have m: "method = ''euclidean''" and sims: "sims = map (euclidean u) X"
      and il: "iloc_with_distance ?f sims (argsort sims) = Inr out"
      by (auto dest: euclidean_distances_Inr)
    have len: "length sims = length ?rs" using sims lenX by simp
    let ?p = "argsort sims"
    have dp: "distinct ?p" and sp: "set ?p = {..<length ?rs}"
      using as len by (auto simp: is_argsort_def)
    have rws: "rows out = map (\<lambda>i. Row (conceptUri (?rs ! i)) (cells (?rs ! i))
                  (extra (?rs ! i), sims ! i)) ?p"
      using iloc_with_distance_rows(1)[OF il] by (simp add: rows_rename_in_place)
    have "\<forall>i \<in> set ?p. sims ! i = euclidean u (X ! i)"
      using sp sims lenX by auto
    then have rws': "rows out = map (\<lambda>i. Row (conceptUri (?rs ! i)) (cells (?rs ! i))
                  (extra (?rs ! i), if method = ''euclidean'' then euclidean u (X ! i)
                                     else cosine u (X ! i))) ?p"
      using rws m by simp
    have srt: "sorted (map Distance (rows out))"
      using iloc_with_distance_Distance[OF il] as by (simp add: is_argsort_def)
    have ord: "\<forall>i j. i < length (rows out) \<and> j < length (rows out)
                   \<and> Distance (rows out ! i) < Distance (rows out ! j) \<longrightarrow> i < j"
    proof (intro allI impI)
      fix i j
      assume h: "i < length (rows out) \<and> j < length (rows out)
                   \<and> Distance (rows out ! i) < Distance (rows out ! j)"
      then show "i < j"
        using sorted_lt_pos[OF srt, of i j] by simp
    qed
    show ?thesis using m u X dp sp rws' ord by blast
  next
    assume e: "method = ''cosine'' \<and> cosine_similarity u X = Inr sims
          \<and> iloc_with_distance ?f sims (rev (argsort sims)) = Inr out"
    then have m: "method = ''cosine''" and sims: "sims = map (cosine u) X"
      and il: "iloc_with_distance ?f sims (rev (argsort sims)) = Inr out"
      by (auto dest: cosine_similarity_Inr)
    have len: "length sims = length ?rs" using sims lenX by simp
    let ?p = "rev (argsort sims)"
    have dp: "distinct ?p" and sp: "set ?p = {..<length ?rs}"
      using as len by (auto simp: is_argsort_def)
    have rws: "rows out = map (\<lambda>i. Row (conceptUri (?rs ! i)) (cells (?rs ! i))
                  (extra (?rs ! i), sims ! i)) ?p"
      using iloc_with_distance_rows(1)[OF il] by (simp add: rows_rename_in_place)
    have ne: "method \<noteq> ''euclidean''" using m by simp
    have "\<forall>i \<in> set ?p. sims ! i = cosine u (X ! i)"
      using sp sims lenX by auto
    then have rws': "rows out = map (\<lambda>i. Row (conceptUri (?rs ! i)) (cells (?rs ! i))
                  (extra (?rs ! i), if method = ''euclidean'' then euclidean u (X ! i)
                                     else cosine u (X ! i))) ?p"
      using rws ne by simp
    have srt: "sorted (rev (map Distance (rows out)))"
      using iloc_with_distance_Distance[OF il] as by (simp add: is_argsort_def rev_map)
    have ord: "\<forall>i j. i < length (rows out) \<and> j < length (rows out)
                   \<and> Distance (rows out ! j) < Distance (rows out ! i) \<longrightarrow> i < j"
    proof (intro allI impI)
      fix i j
      assume h: "i < length (rows out) \<and> j < length (rows out)
                   \<and> Distance (rows out ! j) < Distance (rows out ! i)"
      then show "i < j"
        using sorted_rev_gt_pos[OF srt, of i j] by simp
    qed
    show ?thesis using m ne u X dp sp rws' ord by blast
  qed
qed

text \<open>
  The theorem at the example of the specification: the user vector
  \<open>[10, 90, 10, \<dots>]\<close> and three candidates at the distances 5, 40 and 5, ranked with the
  stable routine.
\<close>

theorem calculate_distances_ranking_witness:
  "(\<forall>xs. is_argsort (stable_argsort xs) xs)
   \<and> fst (calculate_distances ''euclidean'' stable_argsort
     (zip future_skill_col_names [10, 90, 10, 10, 10, 10, 10, 10, 10, 10])
     (Frame future_skill_col_names
     [Row ''A'' [15, 90, 10, 10, 10, 10, 10, 10, 10, 10] (),
      Row ''B'' [50, 90, 10, 10, 10, 10, 10, 10, 10, 10] (),
      Row ''C'' [10, 95, 10, 10, 10, 10, 10, 10, 10, 10] ()])) =
   Inr (Frame future_skill_col_names
     [Row ''A'' [15, 90, 10, 10, 10, 10, 10, 10, 10, 10] ((), 5),
      Row ''C'' [10, 95, 10, 10, 10, 10, 10, 10, 10, 10] ((), 5),
      Row ''B'' [50, 90, 10, 10, 10, 10, 10, 10, 10, 10] ((), 40)])
   \<and> (''euclidean'' = ''euclidean'' \<or> ''euclidean'' = ''cosine'')"
proof -
  have h1: "\<forall>xs. is_argsort (stable_argsort xs) xs"
    by (simp add: stable_argsort_is_argsort)
  have h2: "fst (calculate_distances ''euclidean'' stable_argsort
     (zip future_skill_col_names [10, 90, 10, 10, 10, 10, 10, 10, 10, 10])
     (Frame future_skill_col_names
     [Row ''A'' [15, 90, 10, 10, 10, 10, 10, 10, 10, 10] (),
      Row ''B'' [50, 90, 10, 10, 10, 10, 10, 10, 10, 10] (),
      Row ''C'' [10, 95, 10, 10, 10, 10, 10, 10, 10, 10] ()])) =
   Inr (Frame future_skill_col_names
     [Row ''A'' [15, 90, 10, 10, 10, 10, 10, 10, 10, 10] ((), 5),
      Row ''C'' [10, 95, 10, 10, 10, 10, 10, 10, 10, 10] ((), 5),
      Row ''B'' [50, 90, 10, 10, 10, 10, 10, 10, 10, 10] ((), 40)])"
    by (simp add: calculate_distances_def rename_in_place_def getitem_def df_values_def
      future_skill_col_names_def euclidean_distances_def check_pairwise_arrays_def
      euclidean_def iloc_with_distance_def stable_argsort_def Let_def)
  from calculate_distances_ranking[OF h1 h2] have "''euclidean'' = ''euclidean'' \<or> ''euclidean'' = ''cosine''"
    by (rule conjunct1)
  with h1 h2 show ?thesis by (intro conjI)
qed

text \<open>
  Claim C4 as stated fails for the cosine method. \<open>A\<close> and \<open>B\<close> have the same vector, so
  the same similarity 1 to the user, and \<open>A\<close> stands first in the input. Even a stable
  \<open>argsort\<close> returns \<open>[0, 1]\<close>, which line 334 reverses: \<open>B\<close> is ranked before \<open>A\<close>.
\<close>

theorem cosine_ties_counterexample:
  "map conceptUri (rows (Frame future_skill_col_names
      [Row ''A'' [2, 0, 0, 0, 0, 0, 0, 0, 0, 0] (),
       Row ''B'' [2, 0, 0, 0, 0, 0, 0, 0, 0, 0] ()])) = [''A'', ''B'']
   \<and> fst (calculate_distances ''cosine'' stable_argsort
     (zip future_skill_col_names [1, 0, 0, 0, 0, 0, 0, 0, 0, 0])
     (Frame future_skill_col_names
      [Row ''A'' [2, 0, 0, 0, 0, 0, 0, 0, 0, 0] (),
       Row ''B'' [2, 0, 0, 0, 0, 0, 0, 0, 0, 0] ()])) =
   Inr (Frame future_skill_col_names
      [Row ''B'' [2, 0, 0, 0, 0, 0, 0, 0, 0, 0] ((), 1),
       Row ''A'' [2, 0, 0, 0, 0, 0, 0, 0, 0, 0] ((), 1)])"
  by (simp add: calculate_distances_def rename_in_place_def getitem_def df_values_def
      future_skill_col_names_def cosine_similarity_def check_pairwise_arrays_def
      cosine_def normalize_def l2_norm_def iloc_with_distance_def stable_argsort_def Let_def)

text \<open>
  The same input has distance 1 to the user under the Euclidean method, so both methods
  sort the array \<open>[1, 1]\<close>: whatever \<open>argsort\<close> returns for it, one of the two methods
  does not keep \<open>A\<close> before \<open>B\<close>.
\<close>

lemma no_argsort_keeps_ties_under_both_metrics:
  "let q = zip future_skill_col_names [1, 0, 0, 0, 0, 0, 0, 0, 0, 0];
       F = Frame future_skill_col_names
             [Row ''A'' [2, 0, 0, 0, 0, 0, 0, 0, 0, 0] (),
              Row ''B'' [2, 0, 0, 0, 0, 0, 0, 0, 0, 0] ()];
       ranked = (\<lambda>res. case fst res of Inl e \<Rightarrow> [] | Inr out \<Rightarrow> map conceptUri (rows out))
   in \<not> (\<exists>argsort. ranked (calculate_distances ''euclidean'' argsort q F) = [''A'', ''B'']
                  \<and> ranked (calculate_distances ''cosine'' argsort q F) = [''A'', ''B''])"
proof -
  have "False"
    if e: "(case fst (calculate_distances ''euclidean'' argsort
              (zip future_skill_col_names [1, 0, 0, 0, 0, 0, 0, 0, 0, 0])
              (Frame future_skill_col_names
                [Row ''A'' [2, 0, 0, 0, 0, 0, 0, 0, 0, 0] (),
                 Row ''B'' [2, 0, 0, 0, 0, 0, 0, 0, 0, 0] ()]))
            of Inl e \<Rightarrow> [] | Inr out \<Rightarrow> map conceptUri (rows out)) = [''A'', ''B'']"
    and c: "(case fst (calculate_distances ''cosine'' argsort
              (zip future_skill_col_names [1, 0, 0, 0, 0, 0, 0, 0, 0, 0])
              (Frame future_skill_col_names
                [Row ''A'' [2, 0, 0, 0, 0, 0, 0, 0, 0, 0] (),
                 Row ''B'' [2, 0, 0, 0, 0, 0, 0, 0, 0, 0] ()]))
            of Inl e \<Rightarrow> [] | Inr out \<Rightarrow> map conceptUri (rows out)) = [''A'', ''B'']"
    for argsort
  proof -
    define p where "p = argsort [1, 1]"
    define nm where "nm = (\<lambda>i. conceptUri ([Row ''A'' [2, 0, 0, 0, 0, 0, 0, 0, 0, 0] (),
                 Row ''B'' [2, 0, 0, 0, 0, 0, 0, 0, 0, 0::real] ()] ! i))"
    from e have e': "map nm p = [''A'', ''B'']"
      unfolding p_def nm_def
      by (simp add: calculate_distances_def rename_in_place_def getitem_def df_values_def
        future_skill_col_names_def euclidean_distances_def check_pairwise_arrays_def
        euclidean_def iloc_with_distance_def Let_def comp_def split: if_splits)
    from c have c': "map nm (rev p) = [''A'', ''B'']"
      unfolding p_def nm_def
      by (simp add: calculate_distances_def rename_in_place_def getitem_def df_values_def
        future_skill_col_names_def cosine_similarity_def check_pairwise_arrays_def
        cosine_def normalize_def l2_norm_def iloc_with_distance_def Let_def comp_def
        split: if_splits)
    from e' obtain a b where p: "p = [a, b]"
      by (cases p; cases "tl p"; cases "tl (tl p)") auto
    from e' c' p show False by simp
  qed
  then show ?thesis unfolding Let_def by blast
qed

subsection \<open>The history filter\<close>

lemma similar_profiles:
  assumes "euclidean_distances v (map cells rs) = Inr similarities"
  shows "set (map (conceptUri \<circ> fst)
               (filter (\<lambda>(r, d). d < max_euclidean_distance) (zip rs similarities)))
         = {conceptUri r | r. r \<in> set rs \<and> euclidean v (cells r) < max_euclidean_distance}"
proof -
  have s: "similarities = map (euclidean v) (map cells rs)"
    using assms by (auto simp: euclidean_distances_def split: if_splits)
  have "zip rs similarities = map (\<lambda>r. (r, euclidean v (cells r))) rs"
    unfolding s by (induction rs) auto
  then show ?thesis by (auto simp: image_iff)
qed

text \<open>
  What the loop collects: \<open>profiles_to_remove\<close> gains the disliked uris and the uris of the
  rows within the distance, all of them strings; \<open>narrower_jobs_to_remove\<close> gains tuples only.
\<close>

lemma collect_jobs_to_remove_labels:
  assumes "collect_jobs_to_remove f E jobs (p, n) = Inr (p', n')"
  shows "(Label u \<in> set p' \<longleftrightarrow>
            Label u \<in> set p \<or> u \<in> set jobs
          \<or> (\<exists>d \<in> set jobs. \<exists>v. loc_values f d = Inr v
                \<and> (\<exists>r \<in> set (rows f). conceptUri r = u
                       \<and> euclidean v (cells r) < max_euclidean_distance)))
       \<and> (Label u \<in> set n' \<longleftrightarrow> Label u \<in> set n)
       \<and> (\<forall>d \<in> set jobs. \<exists>v. loc_values f d = Inr v
                \<and> check_pairwise_arrays v (map cells (rows f)))"
  using assms
proof (induction jobs arbitrary: p n)
  case Nil
  then show ?case by simp
next
  case (Cons job jobs)
  from Cons.prems obtain v sims nar where
    v: "loc_values f job = Inr v" and
    s: "euclidean_distances v (map cells (rows f)) = Inr sims" and
    rec: "collect_jobs_to_remove f E jobs
            (p @ Index_1d [job] @ Index_1d (map (conceptUri \<circ> fst)
                   (filter (\<lambda>(r, d). d < max_euclidean_distance) (zip (rows f) sims))),
             n @ Index_2d nar) = Inr (p', n')"
    by (auto split: sum.splits)
  note ih = Cons.IH[OF rec]
  have chk: "check_pairwise_arrays v (map cells (rows f))"
    using s by (auto simp: euclidean_distances_def split: if_splits)
  define near where "near d \<longleftrightarrow> (\<exists>v. loc_values f d = Inr v
                \<and> (\<exists>r \<in> set (rows f). conceptUri r = u
                       \<and> euclidean v (cells r) < max_euclidean_distance))" for d
  have m: "Label u \<in> set (Index_1d xs) \<longleftrightarrow> u \<in> set xs" for xs
    by (auto simp: Index_1d_def)
  have "u \<in> {conceptUri r | r. r \<in> set (rows f) \<and> euclidean v (cells r) < max_euclidean_distance}
         \<longleftrightarrow> near job"
    unfolding near_def using v by auto
  then have sim: "Label u \<in> set (Index_1d (map (conceptUri \<circ> fst)
                   (filter (\<lambda>(r, d). d < max_euclidean_distance) (zip (rows f) sims))))
         \<longleftrightarrow> near job"
    unfolding m similar_profiles[OF s] .
  have one: "Label u \<in> set (Index_1d [job]) \<longleftrightarrow> u = job"
    unfolding m by simp
  have two: "Label u \<notin> set (Index_2d nar)"
    by (auto simp: Index_2d_def)
  have ih1: "Label u \<in> set p' \<longleftrightarrow>
            Label u \<in> set (p @ Index_1d [job] @ Index_1d (map (conceptUri \<circ> fst)
                   (filter (\<lambda>(r, d). d < max_euclidean_distance) (zip (rows f) sims))))
          \<or> u \<in> set jobs \<or> (\<exists>d \<in> set jobs. near d)"
    using ih unfolding near_def by blast
  have ih2: "Label u \<in> set n' \<longleftrightarrow> Label u \<in> set (n @ Index_2d nar)"
    using ih by blast
  have ih3: "\<forall>d \<in> set jobs. \<exists>v. loc_values f d = Inr v
                \<and> check_pairwise_arrays v (map cells (rows f))"
    using ih by blast
  have "Label u \<in> set p' \<longleftrightarrow>
            Label u \<in> set p \<or> u \<in> set (job # jobs) \<or> (\<exists>d \<in> set (job # jobs). near d)"
    unfolding ih1 using sim one by auto
  then have a: "Label u \<in> set p' \<longleftrightarrow>
            Label u \<in> set p \<or> u \<in> set (job # jobs)
          \<or> (\<exists>d \<in> set (job # jobs). \<exists>v. loc_values f d = Inr v
                \<and> (\<exists>r \<in> set (rows f). conceptUri r = u
                       \<and> euclidean v (cells r) < max_euclidean_distance))"
    unfolding near_def .
  have b: "Label u \<in> set n' \<longleftrightarrow> Label u \<in> set n"
    unfolding ih2 using two by simp
  have c: "\<forall>d \<in> set (job # jobs). \<exists>v. loc_values f d = Inr v
                \<and> check_pairwise_arrays v (map cells (rows f))"
    using ih3 v chk by simp
  show ?case using a b c by (intro conjI)
qed

lemma jobs_disliked_only_disliked:
  "jobs_disliked (map (filter (\<lambda>(key, liked). \<not> liked)) job_history) = jobs_disliked job_history"
  by (induction job_history) (auto simp: jobs_disliked_def)

lemma loc_values_row:
  assumes "loc_values f d = Inr v" and "check_pairwise_arrays v (map cells (rows f))"
      and "r0 \<in> set (rows f)" and "conceptUri r0 = d"
  shows "v = cells r0"
proof -
  let ?ds = "filter (\<lambda>r. conceptUri r = d) (rows f)"
  have v: "v = concat (map cells ?ds)"
    using assms(1) by (auto simp: loc_values_def split: list.splits)
  have len: "\<forall>r \<in> set (rows f). length (cells r) = length v"
    using assms(2) by (auto simp: check_pairwise_arrays_def list_all_iff)
  have mem: "r0 \<in> set ?ds" using assms(3,4) by simp
  have all: "\<forall>r \<in> set ?ds. length (cells r) = length v" using len by simp
  have "length v = length ?ds * length v"
    using all unfolding v[symmetric]
  proof -
    have "length (concat (map cells ?ds)) = sum_list (map (\<lambda>r. length (cells r)) ?ds)"
      by (simp add: length_concat comp_def)
    also have "\<dots> = sum_list (map (\<lambda>r. length v) ?ds)"
      using all by (metis (mono_tags, lifting) map_eq_conv)
    also have "\<dots> = length ?ds * length v" by (simp add: sum_list_triv)
    finally show "length v = length ?ds * length v" using v by simp
  qed
  then have "length ?ds = 1 \<or> length v = 0" by auto
  then show ?thesis
  proof
    assume "length ?ds = 1"
    then obtain r where r: "?ds = [r]" by (cases ?ds) auto
    then have "r0 = r" using mem by simp
    then show ?thesis using v r by simp
  next
    assume "length v = 0"
    then show ?thesis using len assms(3) by auto
  qed
qed

lemma loc_values_some_row:
  assumes "loc_values f d = Inr v"
  shows "\<exists>r0 \<in> set (rows f). conceptUri r0 = d"
proof (cases "filter (\<lambda>r. conceptUri r = d) (rows f)")
  case Nil
  then show ?thesis using assms by (simp add: loc_values_def)
next
  case (Cons r0 rs)
  then have "r0 \<in> set (filter (\<lambda>r. conceptUri r = d) (rows f))" by simp
  then show ?thesis by auto
qed

text \<open>
  What \<open>filter_by_job_history\<close> returns, when it returns: the same for the history with the
  liked entries removed; the pool itself when nothing is disliked; and otherwise exactly the
  rows of the pool whose uri is not disliked and is not the uri of a row within distance 30
  of the row of a disliked occupation. The ESCO data plays no part in the result: the
  entries of \<open>narrower_jobs_to_remove\<close> are tuples, which no label of the pool equals.
\<close>

lemma filter_by_job_history_rows:
  assumes "filter_by_job_history pool E job_history = Inr out"
  shows "filter_by_job_history pool E (map (filter (\<lambda>(key, liked). \<not> liked)) job_history) = Inr out
       \<and> (jobs_disliked job_history = [] \<longrightarrow> out = pool)
       \<and> rows out =
           filter (\<lambda>r. conceptUri r \<notin> set (jobs_disliked job_history)
                     \<and> (\<forall>r0 \<in> set (rows pool). \<forall>r' \<in> set (rows pool).
                           conceptUri r0 \<in> set (jobs_disliked job_history)
                           \<and> conceptUri r' = conceptUri r
                           \<longrightarrow> \<not> euclidean (cells r0) (cells r') < 30))
                  (rows pool)"
proof -
  let ?jd = "jobs_disliked job_history"
  let ?keep = "\<lambda>r. conceptUri r \<notin> set ?jd
                     \<and> (\<forall>r0 \<in> set (rows pool). \<forall>r' \<in> set (rows pool).
                           conceptUri r0 \<in> set ?jd \<and> conceptUri r' = conceptUri r
                           \<longrightarrow> \<not> euclidean (cells r0) (cells r') < 30)"
  have a: "filter_by_job_history pool E (map (filter (\<lambda>(key, liked). \<not> liked)) job_history) = Inr out"
    using assms unfolding filter_by_job_history_def jobs_disliked_only_disliked by simp
  have b: "?jd = [] \<longrightarrow> out = pool"
    using assms by (auto simp: filter_by_job_history_def)
  have c: "rows out = filter ?keep (rows pool)"
  proof (cases "?jd = []")
    case True
    then show ?thesis using b by simp
  next
    case False
    with assms obtain p n where
      col: "collect_jobs_to_remove pool E ?jd ([], []) = Inr (p, n)" and
      out: "out = Frame (columns pool)
                    (filter (\<lambda>r. Label (conceptUri r) \<notin> set (p @ n)) (rows pool))"
      by (auto simp: filter_by_job_history_def split: sum.splits)
    have loc: "\<forall>d \<in> set ?jd. \<exists>v. loc_values pool d = Inr v
                \<and> check_pairwise_arrays v (map cells (rows pool))"
      by (rule conjunct2[OF conjunct2[OF collect_jobs_to_remove_labels[OF col, of "[]"]]])
    have key: "(Label (conceptUri r) \<notin> set (p @ n)) = ?keep r" for r
    proof -
      have p: "Label (conceptUri r) \<in> set p \<longleftrightarrow>
            conceptUri r \<in> set ?jd
          \<or> (\<exists>d \<in> set ?jd. \<exists>v. loc_values pool d = Inr v
                \<and> (\<exists>r' \<in> set (rows pool). conceptUri r' = conceptUri r
                       \<and> euclidean v (cells r') < max_euclidean_distance))"
        using conjunct1[OF collect_jobs_to_remove_labels[OF col, of "conceptUri r"]]
        by simp
      have n: "Label (conceptUri r) \<notin> set n"
        using conjunct1[OF conjunct2[OF collect_jobs_to_remove_labels[OF col, of "conceptUri r"]]]
        by simp
      have q: "(\<exists>d \<in> set ?jd. \<exists>v. loc_values pool d = Inr v
                \<and> (\<exists>r' \<in> set (rows pool). conceptUri r' = conceptUri r
                       \<and> euclidean v (cells r') < max_euclidean_distance))
          \<longleftrightarrow> (\<exists>r0 \<in> set (rows pool). \<exists>r' \<in> set (rows pool).
                 conceptUri r0 \<in> set ?jd \<and> conceptUri r' = conceptUri r
                 \<and> euclidean (cells r0) (cells r') < 30)" (is "?L \<longleftrightarrow> ?R")
      proof
        assume ?L
        then obtain d v r' where d: "d \<in> set ?jd" and v: "loc_values pool d = Inr v"
          and r': "r' \<in> set (rows pool)" "conceptUri r' = conceptUri r"
          and near: "euclidean v (cells r') < max_euclidean_distance" by blast
        from loc d v have chk: "check_pairwise_arrays v (map cells (rows pool))" by auto
        from loc_values_some_row[OF v] obtain r0 where
          r0: "r0 \<in> set (rows pool)" "conceptUri r0 = d" by blast
        have "v = cells r0" using loc_values_row[OF v chk r0] .
        then have "euclidean (cells r0) (cells r') < 30"
          using near by (simp add: max_euclidean_distance_def)
        then show ?R using r0 d r' by blast
      next
        assume ?R
        then obtain r0 r' where r0: "r0 \<in> set (rows pool)" "conceptUri r0 \<in> set ?jd"
          and r': "r' \<in> set (rows pool)" "conceptUri r' = conceptUri r"
          and near: "euclidean (cells r0) (cells r') < 30" by blast
        from loc r0(2) obtain v where v: "loc_values pool (conceptUri r0) = Inr v"
          and chk: "check_pairwise_arrays v (map cells (rows pool))" by blast
        have "v = cells r0" using loc_values_row[OF v chk r0(1)] by simp
        then have "euclidean v (cells r') < max_euclidean_distance"
          using near by (simp add: max_euclidean_distance_def)
        then show ?L using r0 v r' by blast
      qed
      have "Label (conceptUri r) \<in> set (p @ n) \<longleftrightarrow> Label (conceptUri r) \<in> set p"
        using n by simp
      also have "\<dots> \<longleftrightarrow> conceptUri r \<in> set ?jd
          \<or> (\<exists>r0 \<in> set (rows pool). \<exists>r' \<in> set (rows pool).
                 conceptUri r0 \<in> set ?jd \<and> conceptUri r' = conceptUri r
                 \<and> euclidean (cells r0) (cells r') < 30)"
        unfolding p q ..
      also have "\<dots> \<longleftrightarrow> \<not> ?keep r" by blast
      finally show ?thesis by blast
    qed
    have "rows out = filter (\<lambda>r. Label (conceptUri r) \<notin> set (p @ n)) (rows pool)"
      unfolding out by simp
    then show ?thesis unfolding key .
  qed
  show ?thesis using a b c by (intro conjI)
qed

text \<open>
  Claim C5 at its failing input. The user disliked \<open>X\<close> and liked \<open>Z\<close>. In the pool \<open>Y\<close>
  has the vector of \<open>X\<close> (distance 0); \<open>N\<close> is far from \<open>X\<close> and its code \<open>2511.4\<close> extends the
  code \<open>2511\<close> of \<open>X\<close>, so \<open>N\<close> is a narrower occupation of \<open>X\<close> and is what
  \<open>get_narrower_occupations\<close> returns for \<open>X\<close>. The filter removes \<open>X\<close> and \<open>Y\<close> and keeps
  \<open>N\<close> in the pool, beside \<open>Z\<close>: the narrower occupation of a disliked occupation is not
  excluded.
\<close>

theorem narrower_occupation_kept:
  "get_narrower_occupations
      \<lparr>occupations = [(''X'', Some ''2511''), (''N'', Some ''2511.4''), (''Y'', Some ''3''),
                       (''Z'', Some ''25'')],
        other_concepts = [], broaderRelationsOccPillar = []\<rparr> ''X''
    = Inr [[''N'']]
   \<and> filter_by_job_history
      (Frame [''FS1'', ''FS2'']
         [Row ''X'' [10, 10] (), Row ''Y'' [10, 10] (), Row ''N'' [90, 10] (),
          Row ''Z'' [10, 90] ()])
      \<lparr>occupations = [(''X'', Some ''2511''), (''N'', Some ''2511.4''), (''Y'', Some ''3''),
                       (''Z'', Some ''25'')],
        other_concepts = [], broaderRelationsOccPillar = []\<rparr>
      [[(''X'', False)], [(''Z'', True)]]
    = Inr (Frame [''FS1'', ''FS2''] [Row ''N'' [90, 10] (), Row ''Z'' [10, 90] ()])"
  by (simp add: filter_by_job_history_def jobs_disliked_def loc_values_def
      euclidean_distances_def check_pairwise_arrays_def euclidean_def
      max_euclidean_distance_def get_narrower_occupations_def look_up_code_def
      look_up_table_def str_code_def Index_1d_def Index_2d_def)

subsection \<open>The preference filter\<close>

lemma sublist_single: "sublist [c] s \<longleftrightarrow> c \<in> set s"
  by (induction s) (auto simp: sublist_Cons_right)

lemma str_nat_digit: "p < 10 \<Longrightarrow> str_nat p = [digit_char p]"
  by simp

lemma str_contains_digits:
  assumes "ps \<noteq> []" and "\<forall>p \<in> set ps. p < 10"
  shows "str_contains (map str_nat ps) k \<longleftrightarrow> (\<exists>p \<in> set ps. digit_char p \<in> set k)"
proof -
  have "map str_nat ps = map (\<lambda>p. [digit_char p]) ps"
    using assms(2) by (simp add: str_nat_digit del: str_nat.simps)
  then show ?thesis
    using assms(1) by (auto simp: str_contains_def list_ex_iff sublist_single simp del: str_nat.simps)
qed

lemma merge_kldb_unique:
  assumes "\<forall>r \<in> set rs. length (filter (\<lambda>(u, k). u = conceptUri r) esco2kldb) = 1"
  shows "map (map_extra fst) (rows (merge_kldb (Frame cs rs) esco2kldb)) = rs"
  using assms
proof (induction rs)
  case Nil
  then show ?case by (simp add: merge_kldb_def)
next
  case (Cons r rs)
  then have "length (filter (\<lambda>(u, k). u = conceptUri r) esco2kldb) = 1" by simp
  then obtain u k where uk: "filter (\<lambda>(u, k). u = conceptUri r) esco2kldb = [(u, k)]"
    by (cases "filter (\<lambda>(u, k). u = conceptUri r) esco2kldb") auto
  have "map (map_extra fst) (rows (merge_kldb (Frame cs rs) esco2kldb)) = rs"
    using Cons by simp
  moreover have "map_extra fst (Row (conceptUri r) (cells r) (extra r, k)) = r"
    by (simp add: map_extra_def)
  ultimately show ?case
    using uk by (simp add: merge_kldb_def)
qed

text \<open>
  Claim C8, as far as the code goes. Let every occupation of the pool have exactly one row
  in \<open>esco2kldb\<close>. Then the join returns the occupations of the pool unchanged and in their
  order, each with its \<open>kldb_keys\<close> cell beside it; both frames of the result are the same
  and have the columns of the pool; with absent or empty preferences the result is this
  joined pool; with a non-empty list of sector codes below 10 the result keeps exactly
  the rows whose \<open>kldb_keys\<close> cell contains the digit of one of the preferred codes.
\<close>

theorem filter_by_preferences_keeps:
  assumes "\<forall>r \<in> set (rows pool). length (filter (\<lambda>(u, k). u = conceptUri r) esco2kldb) = 1"
  shows "snd (filter_by_preferences pool esco2kldb preferences)
           = fst (filter_by_preferences pool esco2kldb preferences)
       \<and> columns (fst (filter_by_preferences pool esco2kldb preferences)) = columns pool
       \<and> map (map_extra fst) (rows (merge_kldb pool esco2kldb)) = rows pool
       \<and> (preferences = None \<or> preferences = Some [] \<longrightarrow>
            fst (filter_by_preferences pool esco2kldb preferences) = merge_kldb pool esco2kldb)
       \<and> (\<forall>ps. preferences = Some ps \<and> ps \<noteq> [] \<and> (\<forall>p \<in> set ps. p < 10) \<longrightarrow>
            rows (fst (filter_by_preferences pool esco2kldb preferences))
              = filter (\<lambda>r. \<exists>p \<in> set ps. digit_char p \<in> set (kldb_keys r))
                  (rows (merge_kldb pool esco2kldb)))"
proof -
  have 1: "snd (filter_by_preferences pool esco2kldb preferences)
           = fst (filter_by_preferences pool esco2kldb preferences)"
    by (simp add: filter_by_preferences_def Let_def)
  have 2: "columns (fst (filter_by_preferences pool esco2kldb preferences)) = columns pool"
    by (simp add: filter_by_preferences_def Let_def merge_kldb_def split: option.splits)
  have 3: "map (map_extra fst) (rows (merge_kldb pool esco2kldb)) = rows pool"
    using merge_kldb_unique[of "rows pool" esco2kldb "columns pool"] assms by simp
  have 4: "preferences = None \<or> preferences = Some [] \<longrightarrow>
            fst (filter_by_preferences pool esco2kldb preferences) = merge_kldb pool esco2kldb"
    by (auto simp: filter_by_preferences_def Let_def str_contains_def merge_kldb_def)
  have 5: "\<forall>ps. preferences = Some ps \<and> ps \<noteq> [] \<and> (\<forall>p \<in> set ps. p < 10) \<longrightarrow>
            rows (fst (filter_by_preferences pool esco2kldb preferences))
              = filter (\<lambda>r. \<exists>p \<in> set ps. digit_char p \<in> set (kldb_keys r))
                  (rows (merge_kldb pool esco2kldb))"
  proof (intro allI impI)
    fix ps assume h: "preferences = Some ps \<and> ps \<noteq> [] \<and> (\<forall>p \<in> set ps. p < 10)"
    then have "\<And>k. str_contains (map str_nat ps) k \<longleftrightarrow> (\<exists>p \<in> set ps. digit_char p \<in> set k)"
      using str_contains_digits by blast
    then show "rows (fst (filter_by_preferences pool esco2kldb preferences))
              = filter (\<lambda>r. \<exists>p \<in> set ps. digit_char p \<in> set (kldb_keys r))
                  (rows (merge_kldb pool esco2kldb))"
      using h by (simp add: filter_by_preferences_def Let_def del: str_nat.simps)
  qed
  show ?thesis using 1 2 3 4 5 by blast
qed

text \<open>
  Claim C8 as stated fails for a pool with an occupation that has no row in \<open>esco2kldb\<close>:
  without preferences the pool \<open>A, B\<close> comes back as \<open>B\<close> alone, since the inner join of
  lines 38 to 42 runs before the preferences are looked at.
\<close>

theorem preferences_missing_sector_counterexample:
  "rows (fst (filter_by_preferences
            (Frame [''FS1''] [Row ''A'' [10] (), Row ''B'' [20] ()])
            [(''B'', ''[3 5]'')] None))
     = [Row ''B'' [20] ((), ''[3 5]'')]
   \<and> map conceptUri (rows (Frame [''FS1''] [Row ''A'' [10::real] (), Row ''B'' [20] ()])) = [''A'', ''B'']"
  by (simp add: filter_by_preferences_def merge_kldb_def Let_def)

text \<open>
  The theorem at a pool of three with the preferences 5 and 9: \<open>A\<close> (sectors 3 and 5) and
  \<open>C\<close> (sectors 0 and 9) are kept, \<open>B\<close> (sector 7) is not.
\<close>

theorem filter_by_preferences_keeps_witness:
  "list_all (\<lambda>r. length (filter (\<lambda>(u, k). u = conceptUri r)
                 [(''A'', ''[3 5]''), (''B'', ''[7]''), (''C'', ''[0 9]'')]) = 1)
      (rows (Frame [''FS1''] [Row ''A'' [10::real] (), Row ''B'' [20] (), Row ''C'' [30] ()]))
   \<and> rows (fst (filter_by_preferences
            (Frame [''FS1''] [Row ''A'' [10] (), Row ''B'' [20] (), Row ''C'' [30] ()])
            [(''A'', ''[3 5]''), (''B'', ''[7]''), (''C'', ''[0 9]'')] (Some [5, 9])))
     = [Row ''A'' [10] ((), ''[3 5]''), Row ''C'' [30] ((), ''[0 9]'')]
   \<and> snd (filter_by_preferences
            (Frame [''FS1''] [Row ''A'' [10] (), Row ''B'' [20] (), Row ''C'' [30] ()])
            [(''A'', ''[3 5]''), (''B'', ''[7]''), (''C'', ''[0 9]'')] (Some [5, 9]))
     = fst (filter_by_preferences
            (Frame [''FS1''] [Row ''A'' [10] (), Row ''B'' [20] (), Row ''C'' [30] ()])
            [(''A'', ''[3 5]''), (''B'', ''[7]''), (''C'', ''[0 9]'')] (Some [5, 9]))"
proof -
  have h: "\<forall>r \<in> set (rows (Frame [''FS1''] [Row ''A'' [10] (), Row ''B'' [20] (), Row ''C'' [30::real] ()])).
       length (filter (\<lambda>(u, k). u = conceptUri r)
                 [(''A'', ''[3 5]''), (''B'', ''[7]''), (''C'', ''[0 9]'')]) = 1"
    by simp
  have e: "rows (fst (filter_by_preferences
            (Frame [''FS1''] [Row ''A'' [10] (), Row ''B'' [20] (), Row ''C'' [30] ()])
            [(''A'', ''[3 5]''), (''B'', ''[7]''), (''C'', ''[0 9]'')] (Some [5, 9])))
     = [Row ''A'' [10] ((), ''[3 5]''), Row ''C'' [30] ((), ''[0 9]'')]"
    by (simp add: filter_by_preferences_def merge_kldb_def str_contains_def kldb_keys_def
        digit_char_def sublist_Cons_right Let_def)
  from filter_by_preferences_keeps[OF h, of "Some [5, 9]"]
  have "snd (filter_by_preferences
            (Frame [''FS1''] [Row ''A'' [10] (), Row ''B'' [20] (), Row ''C'' [30] ()])
            [(''A'', ''[3 5]''), (''B'', ''[7]''), (''C'', ''[0 9]'')] (Some [5, 9]))
     = fst (filter_by_preferences
            (Frame [''FS1''] [Row ''A'' [10] (), Row ''B'' [20] (), Row ''C'' [30] ()])
            [(''A'', ''[3 5]''), (''B'', ''[7]''), (''C'', ''[0 9]'')] (Some [5, 9]))"
    by (rule conjunct1)
  moreover have "list_all (\<lambda>r. length (filter (\<lambda>(u, k). u = conceptUri r)
                 [(''A'', ''[3 5]''), (''B'', ''[7]''), (''C'', ''[0 9]'')]) = 1)
      (rows (Frame [''FS1''] [Row ''A'' [10::real] (), Row ''B'' [20] (), Row ''C'' [30] ()]))"
    by simp
  ultimately show ?thesis using e by (intro conjI)
qed

subsection \<open>The fallback of the rating filter\<close>

text \<open>Both frames returned by the history filter followed by the preference filter are the same.\<close>

lemma history_then_preferences_same:
  "history_then_preferences pool esco_kldb E preferences job_history = Inr (a, b) \<Longrightarrow> a = b"
  by (auto simp: history_then_preferences_def filter_by_preferences_def Let_def
      split: sum.splits)

lemma history_then_preferences_unfold:
  "history_then_preferences pool esco_kldb E preferences job_history =
     (case filter_by_job_history pool E job_history of
        Inl e \<Rightarrow> Inl e
      | Inr h \<Rightarrow> Inr (map_frame Inl (fst (filter_by_preferences h esco_kldb preferences)),
                     map_frame Inl (fst (filter_by_preferences h esco_kldb preferences))))"
  by (auto simp: history_then_preferences_def filter_by_preferences_def Let_def
      split: sum.splits)

text \<open>
  Claim C6, as far as the code goes. Let the last rating be \<open>1\<close> or \<open>-1\<close>, let the reference
  profiles hold at least one pair of a recommendation and its rating, and let no row be
  left among the jobs liked by the users who gave the same rating to the same uri, once the
  uris already shown are removed. Then \<open>filter_by_rating\<close> returns what the skip path
  returns: both buckets are the history filter followed by the preference filter, applied
  to the pool without the uris already shown to the user.
\<close>

theorem filter_by_rating_fallback:
  assumes "rated_conceptUri_list = Some uris" and "user_profile_rating_list = Some ratings"
      and "uris \<noteq> []" and "ratings \<noteq> []"
      and "last ratings = ''1'' \<or> last ratings = ''-1''"
      and "fst (expand_user_profiles user_profiles) \<noteq> []"
      and "liked_by_matching (fst (expand_user_profiles user_profiles))
             (filter (\<lambda>r. conceptUri r = last uris \<and> single_job_rating (extra r) = last ratings)
                (fst (expand_user_profiles user_profiles))) uris = []"
  shows "fst (filter_by_rating transformed_profiles user_profiles esco_kldb E preferences job_history
               rated_conceptUri_list user_profile_rating_list)
         = (case filter_by_job_history (not_yet_rated transformed_profiles uris) E job_history of
              Inl e \<Rightarrow> Inl e
            | Inr h \<Rightarrow> Inr (map_frame Inl (fst (filter_by_preferences h esco_kldb preferences)),
                           map_frame Inl (fst (filter_by_preferences h esco_kldb preferences))))"
proof -
  obtain ex ups where e: "expand_user_profiles user_profiles = (ex, ups)"
    by (cases "expand_user_profiles user_profiles")
  have ex: "ex \<noteq> []" using assms(6) e by simp
  have lm: "liked_by_matching ex
             (filter (\<lambda>r. conceptUri r = last uris \<and> single_job_rating (extra r) = last ratings) ex)
             uris = []"
    using assms(7) e by simp
  have "fst (filter_by_rating transformed_profiles user_profiles esco_kldb E preferences job_history
               rated_conceptUri_list user_profile_rating_list)
        = history_then_preferences (not_yet_rated transformed_profiles uris) esco_kldb E
            preferences job_history"
    using assms(1-5) ex lm e
    by (auto simp: filter_by_rating_def is_nan_or_empty_def Let_def)
  then show ?thesis by (simp add: history_then_preferences_unfold)
qed


text \<open>
  Claim C6 as stated fails. The user liked \<open>U\<close>; the only reference user rated another
  job, so nobody shares the rating. The buckets hold \<open>W\<close> alone, while the path without a
  signal on the entire pool (second conjunct) holds \<open>U\<close> and \<open>W\<close>: lines 258 to 260 remove
  the uris already shown before the two filters run.
\<close>

theorem fallback_not_full_pool_counterexample:
  "fst (filter_by_rating (Frame [''FS1''] [Row ''U'' [10] (), Row ''W'' [20] ()])
          \<lparr>user_columns = [''self_initiative''], user_rows = [\<lparr>user_id = ''p1'', skills = [40], professional_interests = None, job_recommendations = CStr ''Q'', job_ratings = CStr ''1''\<rparr>]\<rparr>
          [(''U'', ''[3]''), (''W'', ''[5]'')] \<lparr>occupations = [], other_concepts = [], broaderRelationsOccPillar = []\<rparr> None [] (Some [''U'']) (Some [''1'']))
     = Inr (Frame [''FS1''] [Row ''W'' [20] (Inl ((), ''[5]''))],
            Frame [''FS1''] [Row ''W'' [20] (Inl ((), ''[5]''))])
   \<and> history_then_preferences (Frame [''FS1''] [Row ''U'' [10] (), Row ''W'' [20] ()])
          [(''U'', ''[3]''), (''W'', ''[5]'')] \<lparr>occupations = [], other_concepts = [], broaderRelationsOccPillar = []\<rparr> None []
     = Inr (Frame [''FS1''] [Row ''U'' [10] (Inl ((), ''[3]'')), Row ''W'' [20] (Inl ((), ''[5]''))],
            Frame [''FS1''] [Row ''U'' [10] (Inl ((), ''[3]'')), Row ''W'' [20] (Inl ((), ''[5]''))])"
  by (simp add: filter_by_rating_def is_nan_or_empty_def expand_user_profiles_def process_columns_def expand_rows_def liked_by_matching_def history_then_preferences_def not_yet_rated_def filter_by_job_history_def jobs_disliked_def filter_by_preferences_def merge_kldb_def map_frame_def map_extra_def str_contains_def kldb_keys_def digit_char_def sublist_Cons_right Let_def)

text \<open>
  The theorem for a user who skipped \<open>Q\<close> and then disliked \<open>U\<close>, with the preference for
  sector 5.
\<close>

theorem filter_by_rating_fallback_witness:
  "fst (expand_user_profiles \<lparr>user_columns = [''self_initiative''], user_rows = [\<lparr>user_id = ''p1'', skills = [40], professional_interests = None, job_recommendations = CStr ''Q'', job_ratings = CStr ''1''\<rparr>]\<rparr>) \<noteq> []
   \<and> liked_by_matching (fst (expand_user_profiles \<lparr>user_columns = [''self_initiative''], user_rows = [\<lparr>user_id = ''p1'', skills = [40], professional_interests = None, job_recommendations = CStr ''Q'', job_ratings = CStr ''1''\<rparr>]\<rparr>))
             (filter (\<lambda>r. conceptUri r = last [''Q'', ''U''] \<and> single_job_rating (extra r) = last [''0'', ''-1''])
                (fst (expand_user_profiles \<lparr>user_columns = [''self_initiative''], user_rows = [\<lparr>user_id = ''p1'', skills = [40], professional_interests = None, job_recommendations = CStr ''Q'', job_ratings = CStr ''1''\<rparr>]\<rparr>))) [''Q'', ''U''] = []
   \<and> fst (filter_by_rating (Frame [''FS1''] [Row ''U'' [10] (), Row ''W'' [20] ()])
          \<lparr>user_columns = [''self_initiative''], user_rows = [\<lparr>user_id = ''p1'', skills = [40], professional_interests = None, job_recommendations = CStr ''Q'', job_ratings = CStr ''1''\<rparr>]\<rparr>
          [(''U'', ''[3]''), (''W'', ''[5]'')] \<lparr>occupations = [], other_concepts = [], broaderRelationsOccPillar = []\<rparr> (Some [5]) [] (Some [''Q'', ''U'']) (Some [''0'', ''-1'']))
     = Inr (Frame [''FS1''] [Row ''W'' [20] (Inl ((), ''[5]''))],
            Frame [''FS1''] [Row ''W'' [20] (Inl ((), ''[5]''))])"
proof -
  have h6: "fst (expand_user_profiles \<lparr>user_columns = [''self_initiative''], user_rows = [\<lparr>user_id = ''p1'', skills = [40], professional_interests = None, job_recommendations = CStr ''Q'', job_ratings = CStr ''1''\<rparr>]\<rparr>) \<noteq> []"
    by (simp add: expand_user_profiles_def process_columns_def expand_rows_def Let_def)
  have h7: "liked_by_matching (fst (expand_user_profiles \<lparr>user_columns = [''self_initiative''], user_rows = [\<lparr>user_id = ''p1'', skills = [40], professional_interests = None, job_recommendations = CStr ''Q'', job_ratings = CStr ''1''\<rparr>]\<rparr>))
             (filter (\<lambda>r. conceptUri r = last [''Q'', ''U''] \<and> single_job_rating (extra r) = last [''0'', ''-1''])
                (fst (expand_user_profiles \<lparr>user_columns = [''self_initiative''], user_rows = [\<lparr>user_id = ''p1'', skills = [40], professional_interests = None, job_recommendations = CStr ''Q'', job_ratings = CStr ''1''\<rparr>]\<rparr>))) [''Q'', ''U''] = []"
    by (simp add: expand_user_profiles_def process_columns_def expand_rows_def
        liked_by_matching_def Let_def)
  have h5: "last [''0'', ''-1''] = ''1'' \<or> last [''0'', ''-1''] = ''-1''" by simp
  have "fst (filter_by_rating (Frame [''FS1''] [Row ''U'' [10] (), Row ''W'' [20] ()])
          \<lparr>user_columns = [''self_initiative''], user_rows = [\<lparr>user_id = ''p1'', skills = [40], professional_interests = None, job_recommendations = CStr ''Q'', job_ratings = CStr ''1''\<rparr>]\<rparr>
          [(''U'', ''[3]''), (''W'', ''[5]'')] \<lparr>occupations = [], other_concepts = [], broaderRelationsOccPillar = []\<rparr> (Some [5]) [] (Some [''Q'', ''U'']) (Some [''0'', ''-1'']))
     = (case filter_by_job_history (not_yet_rated (Frame [''FS1''] [Row ''U'' [10] (), Row ''W'' [20] ()]) [''Q'', ''U'']) \<lparr>occupations = [], other_concepts = [], broaderRelationsOccPillar = []\<rparr> [] of
              Inl e \<Rightarrow> Inl e
            | Inr h \<Rightarrow> Inr (map_frame Inl (fst (filter_by_preferences h [(''U'', ''[3]''), (''W'', ''[5]'')] (Some [5]))),
                           map_frame Inl (fst (filter_by_preferences h [(''U'', ''[3]''), (''W'', ''[5]'')] (Some [5])))))"
    by (rule filter_by_rating_fallback[OF refl refl _ _ h5 h6 h7]) simp_all
  also have "\<dots> = Inr (Frame [''FS1''] [Row ''W'' [20] (Inl ((), ''[5]''))],
            Frame [''FS1''] [Row ''W'' [20] (Inl ((), ''[5]''))])"
    by (simp add: not_yet_rated_def filter_by_job_history_def jobs_disliked_def
        filter_by_preferences_def merge_kldb_def map_frame_def map_extra_def str_contains_def
        kldb_keys_def digit_char_def sublist_Cons_right Let_def)
  finally show ?thesis using h6 h7 by (intro conjI)
qed

subsection \<open>The peer-sourced candidates of the rating filter\<close>

lemma rating_log_processed:
  "rating_log (p\<lparr>job_recommendations := CList (process_column_data (job_recommendations p)),
                 job_ratings := CList (process_column_data (job_ratings p))\<rparr>) = rating_log p"
  by (simp add: rating_log_def)

lemma expand_rows_set:
  "x \<in> set (expand_rows ps) \<longleftrightarrow>
   (\<exists>p \<in> set ps. \<exists>c rt. (c, rt) \<in> set (rating_log p)
      \<and> x = Row c (skills p) \<lparr>profile = p, single_job_rating = rt, num_preferences = []\<rparr>)"
  by (auto simp: expand_rows_def rating_log_def)

lemma expanded_set:
  "x \<in> set (fst (expand_user_profiles ups)) \<longleftrightarrow>
   (\<exists>p \<in> set (user_rows ups). \<exists>c rt. (c, rt) \<in> set (rating_log p)
      \<and> conceptUri x = c \<and> single_job_rating (extra x) = rt
      \<and> user_id (profile (extra x)) = user_id p
      \<and> x = Row c (skills p)
            \<lparr>profile = p\<lparr>job_recommendations := CList (process_column_data (job_recommendations p)),
                           job_ratings := CList (process_column_data (job_ratings p))\<rparr>,
              single_job_rating = rt, num_preferences = []\<rparr>)"
proof -
  let ?pr = "\<lambda>p. p\<lparr>job_recommendations := CList (process_column_data (job_recommendations p)),
                     job_ratings := CList (process_column_data (job_ratings p))\<rparr>"
  have "fst (expand_user_profiles ups) = expand_rows (map ?pr (user_rows ups))"
    by (simp add: expand_user_profiles_def process_columns_def Let_def)
  then show ?thesis
    by (auto simp: expand_rows_set rating_log_processed simp del: )
qed


lemma candidates_uris:
  "conceptUri ` set (liked_by_matching (fst (expand_user_profiles ups))
       (filter (\<lambda>r. conceptUri r = u \<and> single_job_rating (extra r) = r0)
          (fst (expand_user_profiles ups))) uris)
   = {W. W \<notin> set uris \<and> (\<exists>p \<in> set (user_rows ups). \<exists>q \<in> set (user_rows ups).
          user_id p = user_id q \<and> (u, r0) \<in> set (rating_log p) \<and> (W, ''1'') \<in> set (rating_log q))}"
  (is "?L = ?R")
proof (intro set_eqI iffI)
  fix W assume "W \<in> ?L"
  then obtain x m where
    x: "x \<in> set (fst (expand_user_profiles ups))" and
    m: "m \<in> set (fst (expand_user_profiles ups))" and
    mu: "conceptUri m = u" "single_job_rating (extra m) = r0" and
    id: "user_id (profile (extra x)) = user_id (profile (extra m))" and
    x1: "single_job_rating (extra x) = ''1''" and xu: "conceptUri x \<notin> set uris" and
    W: "W = conceptUri x"
    by (auto simp: liked_by_matching_def Let_def)
  from x obtain q where q: "q \<in> set (user_rows ups)"
    "(conceptUri x, single_job_rating (extra x)) \<in> set (rating_log q)"
    "user_id (profile (extra x)) = user_id q"
    unfolding expanded_set by auto
  from m obtain p where p: "p \<in> set (user_rows ups)"
    "(conceptUri m, single_job_rating (extra m)) \<in> set (rating_log p)"
    "user_id (profile (extra m)) = user_id p"
    unfolding expanded_set by auto
  show "W \<in> ?R" using q p mu id x1 xu W by auto
next
  fix W assume "W \<in> ?R"
  then obtain p q where Wu: "W \<notin> set uris" and
    p: "p \<in> set (user_rows ups)" and q: "q \<in> set (user_rows ups)" and
    id: "user_id p = user_id q" and lp: "(u, r0) \<in> set (rating_log p)" and
    lq: "(W, ''1'') \<in> set (rating_log q)" by auto
  let ?pr = "\<lambda>p. p\<lparr>job_recommendations := CList (process_column_data (job_recommendations p)),
                     job_ratings := CList (process_column_data (job_ratings p))\<rparr>"
  let ?m = "Row u (skills p) \<lparr>profile = ?pr p, single_job_rating = r0, num_preferences = []\<rparr>"
  let ?x = "Row W (skills q) \<lparr>profile = ?pr q, single_job_rating = ''1'', num_preferences = []\<rparr>"
  have m: "?m \<in> set (fst (expand_user_profiles ups))"
    unfolding expanded_set using p lp by auto
  have x: "?x \<in> set (fst (expand_user_profiles ups))"
    unfolding expanded_set using q lq by auto
  have "?x \<in> set (liked_by_matching (fst (expand_user_profiles ups))
       (filter (\<lambda>r. conceptUri r = u \<and> single_job_rating (extra r) = r0)
          (fst (expand_user_profiles ups))) uris)"
    using m x id Wu by (force simp: liked_by_matching_def Let_def image_iff)
  then show "W \<in> ?L" by force
qed

lemma candidates_rows:
  "x \<in> set (liked_by_matching (fst (expand_user_profiles ups))
       (filter (\<lambda>r. conceptUri r = u \<and> single_job_rating (extra r) = r0)
          (fst (expand_user_profiles ups))) uris)
   \<longleftrightarrow> (\<exists>q \<in> set (user_rows ups). \<exists>W. W \<notin> set uris \<and> (W, ''1'') \<in> set (rating_log q)
          \<and> (\<exists>p \<in> set (user_rows ups). user_id p = user_id q \<and> (u, r0) \<in> set (rating_log p))
          \<and> x = Row W (skills q)
                 \<lparr>profile = q\<lparr>job_recommendations := CList (process_column_data (job_recommendations q)),
                                job_ratings := CList (process_column_data (job_ratings q))\<rparr>,
                   single_job_rating = ''1'', num_preferences = []\<rparr>)"
  (is "?L \<longleftrightarrow> ?R")
proof
  assume ?L
  then obtain m where
    x: "x \<in> set (fst (expand_user_profiles ups))" and
    m: "m \<in> set (fst (expand_user_profiles ups))" and
    mu: "conceptUri m = u" "single_job_rating (extra m) = r0" and
    id: "user_id (profile (extra x)) = user_id (profile (extra m))" and
    x1: "single_job_rating (extra x) = ''1''" and xu: "conceptUri x \<notin> set uris"
    by (auto simp: liked_by_matching_def Let_def)
  from x obtain q c rt where q: "q \<in> set (user_rows ups)"
    "(c, rt) \<in> set (rating_log q)"
    "user_id (profile (extra x)) = user_id q"
    "x = Row c (skills q)
            \<lparr>profile = q\<lparr>job_recommendations := CList (process_column_data (job_recommendations q)),
                           job_ratings := CList (process_column_data (job_ratings q))\<rparr>,
              single_job_rating = rt, num_preferences = []\<rparr>"
    unfolding expanded_set by auto
  from m obtain p where p: "p \<in> set (user_rows ups)"
    "(conceptUri m, single_job_rating (extra m)) \<in> set (rating_log p)"
    "user_id (profile (extra m)) = user_id p"
    unfolding expanded_set by auto
  have rt: "rt = ''1''" using x1 q(4) by simp
  have c: "c \<notin> set uris" using xu q(4) by simp
  have pq: "user_id p = user_id q" using p(3) q(3) id by simp
  have lp: "(u, r0) \<in> set (rating_log p)" using p(2) mu by simp
  show ?R
  proof (rule bexI[of _ q], rule exI[of _ c], intro conjI)
    show "c \<notin> set uris" by (rule c)
    show "(c, ''1'') \<in> set (rating_log q)" using q(2) rt by simp
    show "\<exists>p \<in> set (user_rows ups). user_id p = user_id q \<and> (u, r0) \<in> set (rating_log p)"
      using p(1) pq lp by blast
    show "x = Row c (skills q)
                 \<lparr>profile = q\<lparr>job_recommendations := CList (process_column_data (job_recommendations q)),
                                job_ratings := CList (process_column_data (job_ratings q))\<rparr>,
                   single_job_rating = ''1'', num_preferences = []\<rparr>"
      using q(4) rt by simp
    show "q \<in> set (user_rows ups)" by (rule q(1))
  qed
next
  assume ?R
  then obtain q W p where Wu: "W \<notin> set uris" and
    p: "p \<in> set (user_rows ups)" and q: "q \<in> set (user_rows ups)" and
    id: "user_id p = user_id q" and lp: "(u, r0) \<in> set (rating_log p)" and
    lq: "(W, ''1'') \<in> set (rating_log q)" and
    xe: "x = Row W (skills q)
                 \<lparr>profile = q\<lparr>job_recommendations := CList (process_column_data (job_recommendations q)),
                                job_ratings := CList (process_column_data (job_ratings q))\<rparr>,
                   single_job_rating = ''1'', num_preferences = []\<rparr>" by auto
  let ?pr = "\<lambda>p. p\<lparr>job_recommendations := CList (process_column_data (job_recommendations p)),
                     job_ratings := CList (process_column_data (job_ratings p))\<rparr>"
  let ?m = "Row u (skills p) \<lparr>profile = ?pr p, single_job_rating = r0, num_preferences = []\<rparr>"
  have m: "?m \<in> set (fst (expand_user_profiles ups))"
    unfolding expanded_set using p lp by auto
  have x: "x \<in> set (fst (expand_user_profiles ups))"
    unfolding expanded_set xe using q lq by auto
  show ?L
    using m x id Wu unfolding xe by (force simp: liked_by_matching_def Let_def image_iff)
qed

lemma not_matched_iff:
  "is_preference_not_matched ps n \<longleftrightarrow> \<not> is_preference_matched ps n"
  by (auto simp: is_preference_not_matched_def is_preference_matched_def list_all_iff list_ex_iff)

lemma matched_iff: "is_preference_matched ps n \<longleftrightarrow> set ps \<inter> set n \<noteq> {}"
  by (auto simp: is_preference_matched_def list_ex_iff)

lemma conceptUri_with_num [simp]: "conceptUri (with_num_preferences r) = conceptUri r"
  by (simp add: with_num_preferences_def map_extra_def)

lemma conceptUri_map_extra [simp]: "conceptUri (map_extra g r) = conceptUri r"
  by (simp add: map_extra_def)

lemma extra_map_extra [simp]: "extra (map_extra g r) = g (extra r)"
  by (simp add: map_extra_def)

lemma map_extra_Inr_eq: "map_extra Inr x = map_extra Inr y \<Longrightarrow> extra x = extra y"
  by (simp add: map_extra_def)

lemma filter_by_rating_decisive:
  assumes "rated_conceptUri_list = Some uris" and "user_profile_rating_list = Some ratings"
      and "uris \<noteq> []" and "ratings \<noteq> []"
      and "last ratings = ''1'' \<or> last ratings = ''-1''"
      and "preferences = Some ps"
      and "liked_by_matching (fst (expand_user_profiles user_profiles))
             (filter (\<lambda>r. conceptUri r = last uris \<and> single_job_rating (extra r) = last ratings)
                (fst (expand_user_profiles user_profiles))) uris = cands"
      and "cands \<noteq> []"
  shows "fst (filter_by_rating transformed_profiles user_profiles esco_kldb E preferences job_history
               rated_conceptUri_list user_profile_rating_list)
         = Inr (Frame (user_columns user_profiles)
                  (map (map_extra Inr)
                     (filter (\<lambda>r. is_preference_matched ps (num_preferences (extra r)))
                        (map with_num_preferences cands))),
                Frame (user_columns user_profiles)
                  (map (map_extra Inr)
                     (filter (\<lambda>r. is_preference_not_matched ps (num_preferences (extra r)))
                        (map with_num_preferences cands))))"
proof -
  obtain ex ups where e: "expand_user_profiles user_profiles = (ex, ups)"
    by (cases "expand_user_profiles user_profiles")
  have cols: "user_columns ups = user_columns user_profiles"
    using e by (auto simp: expand_user_profiles_def process_columns_def Let_def)
  have lm: "liked_by_matching ex
             (filter (\<lambda>r. conceptUri r = last uris \<and> single_job_rating (extra r) = last ratings) ex)
             uris = cands"
    using assms(7) e by simp
  have ex: "ex \<noteq> []"
  proof
    assume "ex = []"
    then have "cands = []" using lm by (simp add: liked_by_matching_def)
    then show False using assms(8) by simp
  qed
  show ?thesis
    using assms(1-6,8) ex lm e cols
    by (auto simp: filter_by_rating_def is_nan_or_empty_def Let_def)
qed


lemma with_num_preferences_sectors:
  "num_preferences (extra (with_num_preferences r))
     = sector_numbers (professional_interests (profile (extra r)))"
  "profile (extra (with_num_preferences r)) = profile (extra r)"
  "single_job_rating (extra (with_num_preferences r)) = single_job_rating (extra r)"
  by (simp_all add: with_num_preferences_def map_extra_def sector_numbers_def)

text \<open>
  Claim C2, as far as the code goes. Let the last rating \<open>r\<close> of the user be \<open>1\<close> or \<open>-1\<close>,
  on the uri \<open>u\<close>, and let the preferences be a list. Let a reference user have the rating
  \<open>r\<close> for \<open>u\<close> somewhere in the log and the rating \<open>1\<close> for \<open>V\<close> somewhere in the log,
  before or after, with \<open>V\<close> not yet shown to the user. Then \<open>filter_by_rating\<close> returns two
  buckets and \<open>V\<close> is in one of them; the uris of the two buckets together are exactly the
  uris that qualify in this way; no row is in both buckets. Every row of a bucket is the
  row of a reference user who liked its uri, and its \<open>num_preferences\<close> are the sectors
  that \<open>mapSectorsToNumbers\<close> finds in the \<open>professional_interests\<close> of that user (none
  when the cell is missing); in the first bucket they meet the preferences, in the second
  they do not. Conversely, every qualifying uri has a row of each reference user who liked
  it, in the first bucket when the sectors of that user meet the preferences and in the
  second bucket otherwise.
\<close>

theorem peer_sourced_candidates:
  assumes "rated_conceptUri_list = Some uris" and "user_profile_rating_list = Some ratings"
      and "uris \<noteq> []" and "ratings \<noteq> []"
      and "last ratings = ''1'' \<or> last ratings = ''-1''"
      and "preferences = Some ps"
      and "p \<in> set (user_rows user_profiles)" and "q \<in> set (user_rows user_profiles)"
      and "user_id p = user_id q"
      and "(last uris, last ratings) \<in> set (rating_log p)"
      and "(V, ''1'') \<in> set (rating_log q)" and "V \<notin> set uris"
  shows "\<exists>P A. fst (filter_by_rating transformed_profiles user_profiles esco_kldb E preferences
                      job_history rated_conceptUri_list user_profile_rating_list) = Inr (P, A)
           \<and> (V \<in> conceptUri ` set (rows P) \<or> V \<in> conceptUri ` set (rows A))
           \<and> conceptUri ` set (rows P) \<union> conceptUri ` set (rows A)
               = {W. W \<notin> set uris \<and> (\<exists>p' \<in> set (user_rows user_profiles).
                      \<exists>q' \<in> set (user_rows user_profiles). user_id p' = user_id q'
                        \<and> (last uris, last ratings) \<in> set (rating_log p')
                        \<and> (W, ''1'') \<in> set (rating_log q'))}
           \<and> set (rows P) \<inter> set (rows A) = {}
           \<and> (\<forall>x \<in> set (rows P). \<exists>e. extra x = Inr e \<and> set ps \<inter> set (num_preferences e) \<noteq> {})
           \<and> (\<forall>x \<in> set (rows A). \<exists>e. extra x = Inr e \<and> set ps \<inter> set (num_preferences e) = {})
           \<and> (\<forall>x \<in> set (rows P) \<union> set (rows A). \<exists>e. extra x = Inr e
                 \<and> num_preferences e = sector_numbers (professional_interests (profile e))
                 \<and> (\<exists>q' \<in> set (user_rows user_profiles).
                        user_id (profile e) = user_id q'
                      \<and> professional_interests (profile e) = professional_interests q'
                      \<and> (conceptUri x, ''1'') \<in> set (rating_log q')))
           \<and> (\<forall>q' \<in> set (user_rows user_profiles). \<forall>W.
                 W \<notin> set uris \<and> (W, ''1'') \<in> set (rating_log q')
                 \<and> (\<exists>p' \<in> set (user_rows user_profiles). user_id p' = user_id q'
                        \<and> (last uris, last ratings) \<in> set (rating_log p'))
                 \<longrightarrow> (\<exists>x \<in> set (rows (if set ps \<inter> set (sector_numbers (professional_interests q')) \<noteq> {}
                                         then P else A)).
                        conceptUri x = W
                      \<and> (\<exists>e. extra x = Inr e \<and> user_id (profile e) = user_id q'
                             \<and> professional_interests (profile e) = professional_interests q')))"
proof -
  define cands where "cands = liked_by_matching (fst (expand_user_profiles user_profiles))
             (filter (\<lambda>r. conceptUri r = last uris \<and> single_job_rating (extra r) = last ratings)
                (fst (expand_user_profiles user_profiles))) uris"
  let ?S = "{W. W \<notin> set uris \<and> (\<exists>p' \<in> set (user_rows user_profiles).
                      \<exists>q' \<in> set (user_rows user_profiles). user_id p' = user_id q'
                        \<and> (last uris, last ratings) \<in> set (rating_log p')
                        \<and> (W, ''1'') \<in> set (rating_log q'))}"
  let ?pr = "\<lambda>p. p\<lparr>job_recommendations := CList (process_column_data (job_recommendations p)),
                     job_ratings := CList (process_column_data (job_ratings p))\<rparr>"
  have cu: "conceptUri ` set cands = ?S"
    unfolding cands_def by (rule candidates_uris)
  have cr: "x \<in> set cands \<longleftrightarrow>
     (\<exists>q \<in> set (user_rows user_profiles). \<exists>W. W \<notin> set uris \<and> (W, ''1'') \<in> set (rating_log q)
          \<and> (\<exists>p \<in> set (user_rows user_profiles). user_id p = user_id q
                 \<and> (last uris, last ratings) \<in> set (rating_log p))
          \<and> x = Row W (skills q)
                 \<lparr>profile = ?pr q, single_job_rating = ''1'', num_preferences = []\<rparr>)" for x
    unfolding cands_def by (rule candidates_rows)
  have VS: "V \<in> ?S" using assms(7-12) by blast
  have Vc: "V \<in> conceptUri ` set cands" unfolding cu by (rule VS)
  have ne: "cands \<noteq> []"
  proof
    assume "cands = []"
    then show False using Vc by simp
  qed
  let ?P = "Frame (user_columns user_profiles)
                  (map (map_extra Inr)
                     (filter (\<lambda>r. is_preference_matched ps (num_preferences (extra r)))
                        (map with_num_preferences cands)))"
  let ?A = "Frame (user_columns user_profiles)
                  (map (map_extra Inr)
                     (filter (\<lambda>r. is_preference_not_matched ps (num_preferences (extra r)))
                        (map with_num_preferences cands)))"
  have res: "fst (filter_by_rating transformed_profiles user_profiles esco_kldb E preferences
                      job_history rated_conceptUri_list user_profile_rating_list) = Inr (?P, ?A)"
    using filter_by_rating_decisive[OF assms(1-6) cands_def[symmetric] ne] .
  have un: "conceptUri ` set (rows ?P) \<union> conceptUri ` set (rows ?A) = conceptUri ` set cands"
    by (auto simp: not_matched_iff image_iff) force+
  have dis: "set (rows ?P) \<inter> set (rows ?A) = {}"
    by (auto simp: not_matched_iff dest!: map_extra_Inr_eq)
  have inP: "\<forall>x \<in> set (rows ?P). \<exists>e. extra x = Inr e \<and> set ps \<inter> set (num_preferences e) \<noteq> {}"
    by (auto simp: matched_iff)
  have inA: "\<forall>x \<in> set (rows ?A). \<exists>e. extra x = Inr e \<and> set ps \<inter> set (num_preferences e) = {}"
    by (auto simp: not_matched_iff matched_iff)
  have V: "V \<in> conceptUri ` set (rows ?P) \<or> V \<in> conceptUri ` set (rows ?A)"
    using un Vc by blast
  have both: "x \<in> set (rows ?P) \<union> set (rows ?A) \<Longrightarrow>
                \<exists>c \<in> set cands. x = map_extra Inr (with_num_preferences c)" for x
    by auto
  have tie: "\<forall>x \<in> set (rows ?P) \<union> set (rows ?A). \<exists>e. extra x = Inr e
                 \<and> num_preferences e = sector_numbers (professional_interests (profile e))
                 \<and> (\<exists>q' \<in> set (user_rows user_profiles).
                        user_id (profile e) = user_id q'
                      \<and> professional_interests (profile e) = professional_interests q'
                      \<and> (conceptUri x, ''1'') \<in> set (rating_log q'))"
  proof
    fix x assume "x \<in> set (rows ?P) \<union> set (rows ?A)"
    then obtain c where c: "c \<in> set cands" and x: "x = map_extra Inr (with_num_preferences c)"
      using both by blast
    from c obtain q' W where q': "q' \<in> set (user_rows user_profiles)"
      and W: "(W, ''1'') \<in> set (rating_log q')"
      and ce: "c = Row W (skills q')
                 \<lparr>profile = ?pr q', single_job_rating = ''1'', num_preferences = []\<rparr>"
      unfolding cr by blast
    let ?e = "extra (with_num_preferences c)"
    have 1: "extra x = Inr ?e" unfolding x by simp
    have 2: "num_preferences ?e = sector_numbers (professional_interests (profile ?e))"
      by (simp add: with_num_preferences_sectors)
    have 3: "user_id (profile ?e) = user_id q'"
      "professional_interests (profile ?e) = professional_interests q'"
      unfolding with_num_preferences_sectors ce by simp_all
    have 4: "(conceptUri x, ''1'') \<in> set (rating_log q')"
      unfolding x using W ce by simp
    show "\<exists>e. extra x = Inr e
                 \<and> num_preferences e = sector_numbers (professional_interests (profile e))
                 \<and> (\<exists>q' \<in> set (user_rows user_profiles).
                        user_id (profile e) = user_id q'
                      \<and> professional_interests (profile e) = professional_interests q'
                      \<and> (conceptUri x, ''1'') \<in> set (rating_log q'))"
      using 1 2 3 4 q' by blast
  qed
  have conv: "\<forall>q' \<in> set (user_rows user_profiles). \<forall>W.
                 W \<notin> set uris \<and> (W, ''1'') \<in> set (rating_log q')
                 \<and> (\<exists>p' \<in> set (user_rows user_profiles). user_id p' = user_id q'
                        \<and> (last uris, last ratings) \<in> set (rating_log p'))
                 \<longrightarrow> (\<exists>x \<in> set (rows (if set ps \<inter> set (sector_numbers (professional_interests q')) \<noteq> {}
                                         then ?P else ?A)).
                        conceptUri x = W
                      \<and> (\<exists>e. extra x = Inr e \<and> user_id (profile e) = user_id q'
                             \<and> professional_interests (profile e) = professional_interests q'))"
  proof (intro ballI allI impI)
    fix q' W
    assume q': "q' \<in> set (user_rows user_profiles)"
      and h: "W \<notin> set uris \<and> (W, ''1'') \<in> set (rating_log q')
                 \<and> (\<exists>p' \<in> set (user_rows user_profiles). user_id p' = user_id q'
                        \<and> (last uris, last ratings) \<in> set (rating_log p'))"
    let ?c = "Row W (skills q')
                 \<lparr>profile = ?pr q', single_job_rating = ''1'', num_preferences = []\<rparr>"
    let ?x = "map_extra Inr (with_num_preferences ?c)"
    let ?e = "extra (with_num_preferences ?c)"
    have c: "?c \<in> set cands" unfolding cr using q' h by blast
    have n: "num_preferences ?e = sector_numbers (professional_interests q')"
      by (simp add: with_num_preferences_sectors)
    have e: "extra ?x = Inr ?e" by simp
    have u: "conceptUri ?x = W" by simp
    have i: "user_id (profile ?e) = user_id q'"
        "professional_interests (profile ?e) = professional_interests q'"
      unfolding with_num_preferences_sectors by simp_all
    have mem: "?x \<in> set (rows (if set ps \<inter> set (sector_numbers (professional_interests q')) \<noteq> {}
                                         then ?P else ?A))"
    proof (cases "set ps \<inter> set (sector_numbers (professional_interests q')) \<noteq> {}")
      case True
      then have "is_preference_matched ps (num_preferences ?e)"
        unfolding matched_iff n .
      then have "?x \<in> set (rows ?P)" using c by (simp add: image_iff) blast
      then show ?thesis using True by simp
    next
      case False
      then have "is_preference_not_matched ps (num_preferences ?e)"
        unfolding not_matched_iff matched_iff n by simp
      then have "?x \<in> set (rows ?A)" using c by (simp add: image_iff) blast
      then show ?thesis using False by simp
    qed
    show "\<exists>x \<in> set (rows (if set ps \<inter> set (sector_numbers (professional_interests q')) \<noteq> {}
                                         then ?P else ?A)).
                        conceptUri x = W
                      \<and> (\<exists>e. extra x = Inr e \<and> user_id (profile e) = user_id q'
                             \<and> professional_interests (profile e) = professional_interests q')"
      using mem u e i by blast
  qed
  show ?thesis
    using res V un cu dis inP inA tie conv
    by (intro exI[of _ ?P] exI[of _ ?A]) (simp only: simp_thms)
qed

text \<open>
  Claim C2 as stated fails. The reference user liked \<open>V\<close> first and \<open>U\<close> afterwards, and the
  user has just liked \<open>U\<close>. \<open>V\<close> was not rated after \<open>U\<close>, so the candidates of the
  specification are empty (second conjunct), yet \<open>V\<close> is in the first bucket: lines 245 to
  248 take every job that a matching user liked, wherever it stands in the log.
\<close>

theorem liked_before_counterexample:
  "fst (filter_by_rating (Frame [''FS1''] [Row ''U'' [10] (), Row ''W'' [20] ()])
          \<lparr>user_columns = [''self_initiative''], user_rows = [\<lparr>user_id = ''p1'', skills = [40], professional_interests = Some ''Naturwissenschaft, Geografie und Informatik'', job_recommendations = CStr ''V,U'', job_ratings = CStr ''1,1''\<rparr>]\<rparr>
          [(''U'', ''[3]''), (''W'', ''[5]'')] \<lparr>occupations = [], other_concepts = [], broaderRelationsOccPillar = []\<rparr> (Some [4]) [] (Some [''U'']) (Some [''1'']))
     = Inr (Frame [''self_initiative'']
              [Row ''V'' [40]
                 (Inr \<lparr>profile = \<lparr>user_id = ''p1'', skills = [40],
                          professional_interests = Some ''Naturwissenschaft, Geografie und Informatik'',
                          job_recommendations = CList [''V'', ''U''],
                          job_ratings = CList [''1'', ''1'']\<rparr>,
                        single_job_rating = ''1'', num_preferences = [4]\<rparr>)],
            Frame [''self_initiative''] [])
   \<and> spec_subsequently_liked (user_rows \<lparr>user_columns = [''self_initiative''], user_rows = [\<lparr>user_id = ''p1'', skills = [40], professional_interests = Some ''Naturwissenschaft, Geografie und Informatik'', job_recommendations = CStr ''V,U'', job_ratings = CStr ''1,1''\<rparr>]\<rparr>) ''U'' ''1'' [''U''] = []"
  by (simp add: filter_by_rating_def is_nan_or_empty_def expand_user_profiles_def
      process_columns_def expand_rows_def liked_by_matching_def with_num_preferences_def
      map_extra_def mapSectorsToNumbers_def sectors_kldb_def is_preference_matched_def
      is_preference_not_matched_def spec_subsequently_liked_def rating_log_def
      sublist_Cons_right Let_def)


text \<open>
  The theorem for a user with the preference 4 who liked \<open>S\<close> and then disliked \<open>U\<close>, and two
  reference users who disliked \<open>U\<close>: the first, whose interests name sector 4, liked \<open>V\<close>;
  the second, whose interests name sector 5, liked \<open>T\<close>. \<open>V\<close> is in the first bucket and \<open>T\<close>
  in the second.
\<close>

theorem peer_sourced_candidates_witness:
  "\<lparr>user_id = ''p1'', skills = [40], professional_interests = Some ''Naturwissenschaft, Geografie und Informatik'', job_recommendations = CStr ''U,V'', job_ratings = CStr ''-1,1''\<rparr> \<in> set (user_rows \<lparr>user_columns = [''self_initiative''], user_rows = [\<lparr>user_id = ''p1'', skills = [40], professional_interests = Some ''Naturwissenschaft, Geografie und Informatik'', job_recommendations = CStr ''U,V'', job_ratings = CStr ''-1,1''\<rparr>, \<lparr>user_id = ''p2'', skills = [60], professional_interests = Some ''Verkehr, Logistik, Schutz und Sicherheit'', job_recommendations = CStr ''U,T'', job_ratings = CStr ''-1,1''\<rparr>]\<rparr>)
   \<and> (last [''S'', ''U''], last [''1'', ''-1'']) \<in> set (rating_log \<lparr>user_id = ''p1'', skills = [40], professional_interests = Some ''Naturwissenschaft, Geografie und Informatik'', job_recommendations = CStr ''U,V'', job_ratings = CStr ''-1,1''\<rparr>)
   \<and> (''V'', ''1'') \<in> set (rating_log \<lparr>user_id = ''p1'', skills = [40], professional_interests = Some ''Naturwissenschaft, Geografie und Informatik'', job_recommendations = CStr ''U,V'', job_ratings = CStr ''-1,1''\<rparr>)
   \<and> ''V'' \<notin> set [''S'', ''U'']
   \<and> fst (filter_by_rating (Frame [''FS1''] [Row ''U'' [10] (), Row ''W'' [20] ()]) \<lparr>user_columns = [''self_initiative''], user_rows = [\<lparr>user_id = ''p1'', skills = [40], professional_interests = Some ''Naturwissenschaft, Geografie und Informatik'', job_recommendations = CStr ''U,V'', job_ratings = CStr ''-1,1''\<rparr>, \<lparr>user_id = ''p2'', skills = [60], professional_interests = Some ''Verkehr, Logistik, Schutz und Sicherheit'', job_recommendations = CStr ''U,T'', job_ratings = CStr ''-1,1''\<rparr>]\<rparr> [(''U'', ''[3]''), (''W'', ''[5]'')] \<lparr>occupations = [], other_concepts = [], broaderRelationsOccPillar = []\<rparr> (Some [4]) [] (Some [''S'', ''U'']) (Some [''1'', ''-1'']))
     = Inr (Frame [''self_initiative''] [Row ''V'' [40] (Inr \<lparr>profile = \<lparr>user_id = ''p1'', skills = [40], professional_interests = Some ''Naturwissenschaft, Geografie und Informatik'', job_recommendations = CList [''U'', ''V''], job_ratings = CList [''-1'', ''1'']\<rparr>, single_job_rating = ''1'', num_preferences = [4]\<rparr>)],
            Frame [''self_initiative''] [Row ''T'' [60] (Inr \<lparr>profile = \<lparr>user_id = ''p2'', skills = [60], professional_interests = Some ''Verkehr, Logistik, Schutz und Sicherheit'', job_recommendations = CList [''U'', ''T''], job_ratings = CList [''-1'', ''1'']\<rparr>, single_job_rating = ''1'', num_preferences = [5]\<rparr>)])
   \<and> (\<exists>P A. fst (filter_by_rating (Frame [''FS1''] [Row ''U'' [10] (), Row ''W'' [20] ()]) \<lparr>user_columns = [''self_initiative''], user_rows = [\<lparr>user_id = ''p1'', skills = [40], professional_interests = Some ''Naturwissenschaft, Geografie und Informatik'', job_recommendations = CStr ''U,V'', job_ratings = CStr ''-1,1''\<rparr>, \<lparr>user_id = ''p2'', skills = [60], professional_interests = Some ''Verkehr, Logistik, Schutz und Sicherheit'', job_recommendations = CStr ''U,T'', job_ratings = CStr ''-1,1''\<rparr>]\<rparr> [(''U'', ''[3]''), (''W'', ''[5]'')] \<lparr>occupations = [], other_concepts = [], broaderRelationsOccPillar = []\<rparr> (Some [4])
                      [] (Some [''S'', ''U'']) (Some [''1'', ''-1''])) = Inr (P, A)
           \<and> (''V'' \<in> conceptUri ` set (rows P) \<or> ''V'' \<in> conceptUri ` set (rows A))
           \<and> conceptUri ` set (rows P) \<union> conceptUri ` set (rows A)
               = {W. W \<notin> set [''S'', ''U''] \<and> (\<exists>p' \<in> set (user_rows \<lparr>user_columns = [''self_initiative''], user_rows = [\<lparr>user_id = ''p1'', skills = [40], professional_interests = Some ''Naturwissenschaft, Geografie und Informatik'', job_recommendations = CStr ''U,V'', job_ratings = CStr ''-1,1''\<rparr>, \<lparr>user_id = ''p2'', skills = [60], professional_interests = Some ''Verkehr, Logistik, Schutz und Sicherheit'', job_recommendations = CStr ''U,T'', job_ratings = CStr ''-1,1''\<rparr>]\<rparr>).
                      \<exists>q' \<in> set (user_rows \<lparr>user_columns = [''self_initiative''], user_rows = [\<lparr>user_id = ''p1'', skills = [40], professional_interests = Some ''Naturwissenschaft, Geografie und Informatik'', job_recommendations = CStr ''U,V'', job_ratings = CStr ''-1,1''\<rparr>, \<lparr>user_id = ''p2'', skills = [60], professional_interests = Some ''Verkehr, Logistik, Schutz und Sicherheit'', job_recommendations = CStr ''U,T'', job_ratings = CStr ''-1,1''\<rparr>]\<rparr>). user_id p' = user_id q'
                        \<and> (last [''S'', ''U''], last [''1'', ''-1'']) \<in> set (rating_log p')
                        \<and> (W, ''1'') \<in> set (rating_log q'))}
           \<and> set (rows P) \<inter> set (rows A) = {}
           \<and> (\<forall>x \<in> set (rows P). \<exists>e. extra x = Inr e \<and> set [4] \<inter> set (num_preferences e) \<noteq> {})
           \<and> (\<forall>x \<in> set (rows A). \<exists>e. extra x = Inr e \<and> set [4] \<inter> set (num_preferences e) = {})
           \<and> (\<forall>x \<in> set (rows P) \<union> set (rows A). \<exists>e. extra x = Inr e
                 \<and> num_preferences e = sector_numbers (professional_interests (profile e))
                 \<and> (\<exists>q' \<in> set (user_rows \<lparr>user_columns = [''self_initiative''], user_rows = [\<lparr>user_id = ''p1'', skills = [40], professional_interests = Some ''Naturwissenschaft, Geografie und Informatik'', job_recommendations = CStr ''U,V'', job_ratings = CStr ''-1,1''\<rparr>, \<lparr>user_id = ''p2'', skills = [60], professional_interests = Some ''Verkehr, Logistik, Schutz und Sicherheit'', job_recommendations = CStr ''U,T'', job_ratings = CStr ''-1,1''\<rparr>]\<rparr>).
                        user_id (profile e) = user_id q'
                      \<and> professional_interests (profile e) = professional_interests q'
                      \<and> (conceptUri x, ''1'') \<in> set (rating_log q')))
           \<and> (\<forall>q' \<in> set (user_rows \<lparr>user_columns = [''self_initiative''], user_rows = [\<lparr>user_id = ''p1'', skills = [40], professional_interests = Some ''Naturwissenschaft, Geografie und Informatik'', job_recommendations = CStr ''U,V'', job_ratings = CStr ''-1,1''\<rparr>, \<lparr>user_id = ''p2'', skills = [60], professional_interests = Some ''Verkehr, Logistik, Schutz und Sicherheit'', job_recommendations = CStr ''U,T'', job_ratings = CStr ''-1,1''\<rparr>]\<rparr>). \<forall>W.
                 W \<notin> set [''S'', ''U''] \<and> (W, ''1'') \<in> set (rating_log q')
                 \<and> (\<exists>p' \<in> set (user_rows \<lparr>user_columns = [''self_initiative''], user_rows = [\<lparr>user_id = ''p1'', skills = [40], professional_interests = Some ''Naturwissenschaft, Geografie und Informatik'', job_recommendations = CStr ''U,V'', job_ratings = CStr ''-1,1''\<rparr>, \<lparr>user_id = ''p2'', skills = [60], professional_interests = Some ''Verkehr, Logistik, Schutz und Sicherheit'', job_recommendations = CStr ''U,T'', job_ratings = CStr ''-1,1''\<rparr>]\<rparr>). user_id p' = user_id q'
                        \<and> (last [''S'', ''U''], last [''1'', ''-1'']) \<in> set (rating_log p'))
                 \<longrightarrow> (\<exists>x \<in> set (rows (if set [4] \<inter> set (sector_numbers (professional_interests q')) \<noteq> {}
                                         then P else A)).
                        conceptUri x = W
                      \<and> (\<exists>e. extra x = Inr e \<and> user_id (profile e) = user_id q'
                             \<and> professional_interests (profile e) = professional_interests q'))))"
proof -
  have m: "\<lparr>user_id = ''p1'', skills = [40], professional_interests = Some ''Naturwissenschaft, Geografie und Informatik'', job_recommendations = CStr ''U,V'', job_ratings = CStr ''-1,1''\<rparr> \<in> set (user_rows \<lparr>user_columns = [''self_initiative''], user_rows = [\<lparr>user_id = ''p1'', skills = [40], professional_interests = Some ''Naturwissenschaft, Geografie und Informatik'', job_recommendations = CStr ''U,V'', job_ratings = CStr ''-1,1''\<rparr>, \<lparr>user_id = ''p2'', skills = [60], professional_interests = Some ''Verkehr, Logistik, Schutz und Sicherheit'', job_recommendations = CStr ''U,T'', job_ratings = CStr ''-1,1''\<rparr>]\<rparr>)" by simp
  have l1: "(last [''S'', ''U''], last [''1'', ''-1'']) \<in> set (rating_log \<lparr>user_id = ''p1'', skills = [40], professional_interests = Some ''Naturwissenschaft, Geografie und Informatik'', job_recommendations = CStr ''U,V'', job_ratings = CStr ''-1,1''\<rparr>)"
    by (simp add: rating_log_def)
  have l2: "(''V'', ''1'') \<in> set (rating_log \<lparr>user_id = ''p1'', skills = [40], professional_interests = Some ''Naturwissenschaft, Geografie und Informatik'', job_recommendations = CStr ''U,V'', job_ratings = CStr ''-1,1''\<rparr>)"
    by (simp add: rating_log_def)
  have n: "''V'' \<notin> set [''S'', ''U'']" by simp
  have r: "last [''1'', ''-1''] = ''1'' \<or> last [''1'', ''-1''] = ''-1''" by simp
  have v: "fst (filter_by_rating (Frame [''FS1''] [Row ''U'' [10] (), Row ''W'' [20] ()]) \<lparr>user_columns = [''self_initiative''], user_rows = [\<lparr>user_id = ''p1'', skills = [40], professional_interests = Some ''Naturwissenschaft, Geografie und Informatik'', job_recommendations = CStr ''U,V'', job_ratings = CStr ''-1,1''\<rparr>, \<lparr>user_id = ''p2'', skills = [60], professional_interests = Some ''Verkehr, Logistik, Schutz und Sicherheit'', job_recommendations = CStr ''U,T'', job_ratings = CStr ''-1,1''\<rparr>]\<rparr> [(''U'', ''[3]''), (''W'', ''[5]'')] \<lparr>occupations = [], other_concepts = [], broaderRelationsOccPillar = []\<rparr> (Some [4]) [] (Some [''S'', ''U'']) (Some [''1'', ''-1'']))
     = Inr (Frame [''self_initiative''] [Row ''V'' [40] (Inr \<lparr>profile = \<lparr>user_id = ''p1'', skills = [40], professional_interests = Some ''Naturwissenschaft, Geografie und Informatik'', job_recommendations = CList [''U'', ''V''], job_ratings = CList [''-1'', ''1'']\<rparr>, single_job_rating = ''1'', num_preferences = [4]\<rparr>)],
            Frame [''self_initiative''] [Row ''T'' [60] (Inr \<lparr>profile = \<lparr>user_id = ''p2'', skills = [60], professional_interests = Some ''Verkehr, Logistik, Schutz und Sicherheit'', job_recommendations = CList [''U'', ''T''], job_ratings = CList [''-1'', ''1'']\<rparr>, single_job_rating = ''1'', num_preferences = [5]\<rparr>)])"
    by (simp add: filter_by_rating_def is_nan_or_empty_def expand_user_profiles_def
      process_columns_def expand_rows_def liked_by_matching_def with_num_preferences_def
      map_extra_def mapSectorsToNumbers_def sectors_kldb_def is_preference_matched_def
      is_preference_not_matched_def sublist_Cons_right Let_def)
  have c: "\<exists>P A. fst (filter_by_rating (Frame [''FS1''] [Row ''U'' [10] (), Row ''W'' [20] ()]) \<lparr>user_columns = [''self_initiative''], user_rows = [\<lparr>user_id = ''p1'', skills = [40], professional_interests = Some ''Naturwissenschaft, Geografie und Informatik'', job_recommendations = CStr ''U,V'', job_ratings = CStr ''-1,1''\<rparr>, \<lparr>user_id = ''p2'', skills = [60], professional_interests = Some ''Verkehr, Logistik, Schutz und Sicherheit'', job_recommendations = CStr ''U,T'', job_ratings = CStr ''-1,1''\<rparr>]\<rparr> [(''U'', ''[3]''), (''W'', ''[5]'')] \<lparr>occupations = [], other_concepts = [], broaderRelationsOccPillar = []\<rparr> (Some [4])
                      [] (Some [''S'', ''U'']) (Some [''1'', ''-1''])) = Inr (P, A)
           \<and> (''V'' \<in> conceptUri ` set (rows P) \<or> ''V'' \<in> conceptUri ` set (rows A))
           \<and> conceptUri ` set (rows P) \<union> conceptUri ` set (rows A)
               = {W. W \<notin> set [''S'', ''U''] \<and> (\<exists>p' \<in> set (user_rows \<lparr>user_columns = [''self_initiative''], user_rows = [\<lparr>user_id = ''p1'', skills = [40], professional_interests = Some ''Naturwissenschaft, Geografie und Informatik'', job_recommendations = CStr ''U,V'', job_ratings = CStr ''-1,1''\<rparr>, \<lparr>user_id = ''p2'', skills = [60], professional_interests = Some ''Verkehr, Logistik, Schutz und Sicherheit'', job_recommendations = CStr ''U,T'', job_ratings = CStr ''-1,1''\<rparr>]\<rparr>).
                      \<exists>q' \<in> set (user_rows \<lparr>user_columns = [''self_initiative''], user_rows = [\<lparr>user_id = ''p1'', skills = [40], professional_interests = Some ''Naturwissenschaft, Geografie und Informatik'', job_recommendations = CStr ''U,V'', job_ratings = CStr ''-1,1''\<rparr>, \<lparr>user_id = ''p2'', skills = [60], professional_interests = Some ''Verkehr, Logistik, Schutz und Sicherheit'', job_recommendations = CStr ''U,T'', job_ratings = CStr ''-1,1''\<rparr>]\<rparr>). user_id p' = user_id q'
                        \<and> (last [''S'', ''U''], last [''1'', ''-1'']) \<in> set (rating_log p')
                        \<and> (W, ''1'') \<in> set (rating_log q'))}
           \<and> set (rows P) \<inter> set (rows A) = {}
           \<and> (\<forall>x \<in> set (rows P). \<exists>e. extra x = Inr e \<and> set [4] \<inter> set (num_preferences e) \<noteq> {})
           \<and> (\<forall>x \<in> set (rows A). \<exists>e. extra x = Inr e \<and> set [4] \<inter> set (num_preferences e) = {})
           \<and> (\<forall>x \<in> set (rows P) \<union> set (rows A). \<exists>e. extra x = Inr e
                 \<and> num_preferences e = sector_numbers (professional_interests (profile e))
                 \<and> (\<exists>q' \<in> set (user_rows \<lparr>user_columns = [''self_initiative''], user_rows = [\<lparr>user_id = ''p1'', skills = [40], professional_interests = Some ''Naturwissenschaft, Geografie und Informatik'', job_recommendations = CStr ''U,V'', job_ratings = CStr ''-1,1''\<rparr>, \<lparr>user_id = ''p2'', skills = [60], professional_interests = Some ''Verkehr, Logistik, Schutz und Sicherheit'', job_recommendations = CStr ''U,T'', job_ratings = CStr ''-1,1''\<rparr>]\<rparr>).
                        user_id (profile e) = user_id q'
                      \<and> professional_interests (profile e) = professional_interests q'
                      \<and> (conceptUri x, ''1'') \<in> set (rating_log q')))
           \<and> (\<forall>q' \<in> set (user_rows \<lparr>user_columns = [''self_initiative''], user_rows = [\<lparr>user_id = ''p1'', skills = [40], professional_interests = Some ''Naturwissenschaft, Geografie und Informatik'', job_recommendations = CStr ''U,V'', job_ratings = CStr ''-1,1''\<rparr>, \<lparr>user_id = ''p2'', skills = [60], professional_interests = Some ''Verkehr, Logistik, Schutz und Sicherheit'', job_recommendations = CStr ''U,T'', job_ratings = CStr ''-1,1''\<rparr>]\<rparr>). \<forall>W.
                 W \<notin> set [''S'', ''U''] \<and> (W, ''1'') \<in> set (rating_log q')
                 \<and> (\<exists>p' \<in> set (user_rows \<lparr>user_columns = [''self_initiative''], user_rows = [\<lparr>user_id = ''p1'', skills = [40], professional_interests = Some ''Naturwissenschaft, Geografie und Informatik'', job_recommendations = CStr ''U,V'', job_ratings = CStr ''-1,1''\<rparr>, \<lparr>user_id = ''p2'', skills = [60], professional_interests = Some ''Verkehr, Logistik, Schutz und Sicherheit'', job_recommendations = CStr ''U,T'', job_ratings = CStr ''-1,1''\<rparr>]\<rparr>). user_id p' = user_id q'
                        \<and> (last [''S'', ''U''], last [''1'', ''-1'']) \<in> set (rating_log p'))
                 \<longrightarrow> (\<exists>x \<in> set (rows (if set [4] \<inter> set (sector_numbers (professional_interests q')) \<noteq> {}
                                         then P else A)).
                        conceptUri x = W
                      \<and> (\<exists>e. extra x = Inr e \<and> user_id (profile e) = user_id q'
                             \<and> professional_interests (profile e) = professional_interests q')))"
    by (rule peer_sourced_candidates[OF refl refl _ _ r refl m m refl l1 l2 n]) simp_all
  from m l1 l2 n v c show ?thesis by (intro conjI)
qed

section \<open>Properties of the recommender\<close>

subsection \<open>The closeness test\<close>




subsection \<open>The refinement of the recommendations\<close>













subsection \<open>The refinement as the service runs it\<close>

text \<open>
  \<open>run\<close> receives the unfiltered pool from \<open>match_user_profile\<close> and hands it to the
  recommender as \<open>transformed_profiles_preferred\<close>. That pool has the uris as its index and
  no column \<open>conceptUri\<close>, so line 114 raises KeyError whenever it is reached, the handler
  goes on, and no candidate is replaced.
\<close>

lemma broader_replacement_no_column:
  "''conceptUri'' \<notin> set (tcolumns tpp) \<Longrightarrow> broader_replacement B tpp occ job_fs_profile b = None"
  by (simp add: broader_replacement_def getitem_column_def
      split: option.splits sum.splits bool.splits prod.splits)

lemma refine_loop_no_column:
  assumes "''conceptUri'' \<notin> set (tcolumns tpp)"
  shows "refine_loop B tpp occ us state = Inr state' \<Longrightarrow> state' = state"
proof (induction us arbitrary: state)
  case Nil
  then show ?case by simp
next
  case (Cons v us)
  obtain cur acc where s: "state = (cur, acc)" by (cases state)
  from Cons.prems obtain b where b: "first_broaderUri_of B v = Inr b"
    unfolding s by (auto simp: Let_def split: sum.splits)
  have "refine_loop B tpp occ (v # us) (cur, acc) = refine_loop B tpp occ us (cur, acc)"
    using b by (simp add: Let_def broader_replacement_no_column[OF assms])
  then show ?case using Cons.IH[of state] Cons.prems s by simp
qed

lemma refine_recommendations_no_column:
  assumes "''conceptUri'' \<notin> set (tcolumns tpp)"
      and "refine_recommendations B recommended_jobs tpp occ = Inr final_recom"
  shows "final_recom = concat_frames (map_origin Inl recommended_jobs)
                         (map_origin Inr (Table (tcolumns recommended_jobs) []))"
proof -
  from assms(2) obtain uris kept acc where
    l: "refine_loop B tpp occ uris (recommended_jobs, Table (tcolumns recommended_jobs) [])
          = Inr (kept, acc)"
    and f: "final_recom = concat_frames (map_origin Inl kept) (map_origin Inr acc)"
    by (auto simp: refine_recommendations_def split: option.splits sum.splits)
  from refine_loop_no_column[OF assms(1) l] f show ?thesis by simp
qed

lemma refine_recommendations_no_column_origin:
  assumes "''conceptUri'' \<notin> set (tcolumns tpp)"
      and "refine_recommendations B recommended_jobs tpp occ = Inr final_recom"
  shows "map origin (trows final_recom) = map (Inl \<circ> origin) (trows recommended_jobs)"
  unfolding refine_recommendations_no_column[OF assms]
  by (simp add: concat_frames_def reindex_columns_def map_origin_def Let_def comp_def)

lemma drop_column_origin:
  "drop_column name df = Some df' \<Longrightarrow> map origin (trows df') = map origin (trows df)"
  by (auto simp: drop_column_def comp_def split: if_splits)

text \<open>
  In the service every recommendation of the comfort zone is one of the matches: none is a
  row of the pool.
\<close>

lemma service_never_replaces:
  assumes "''conceptUri'' \<notin> set (columns transformed_profiles_preferred)"
      and "r_get_comfort_zone_recommendation (JobRecommender read_esco) top_jobs
             transformed_profiles_preferred transformed_profiles esco_path = Inr recommendations"
  shows "\<forall>r \<in> set (rows recommendations). isl (extra r)"
proof -
  let ?tpp = "pool_table transformed_profiles_preferred"
  have nc: "''conceptUri'' \<notin> set (tcolumns ?tpp)"
    using assms(1) by (simp add: pool_table_def)
  from assms(2) obtain final where
    g: "get_comfort_zone_recommendation (matches_table top_jobs) ?tpp
          (pool_table transformed_profiles) (read_esco esco_path) = Inr final"
    and r: "recommendations = recommendations_frame (columns top_jobs) final"
    by (cases "get_comfort_zone_recommendation (matches_table top_jobs) ?tpp
          (pool_table transformed_profiles) (read_esco esco_path)")
       (auto simp: JobRecommender_def)
  from g obtain merged final_recom where
    rf: "refine_recommendations (broaderRelationsOccPillar (read_esco esco_path))
           (thead 5 (Table (tcolumns merged) (drop_duplicates (tcolumns merged) [] (trows merged))))
           ?tpp (pool_table transformed_profiles) = Inr final_recom"
    and d: "drop_column ''broaderUri'' final_recom = Some final"
    by (auto simp: get_comfort_zone_recommendation_def Let_def
        split: sum.splits option.splits)
  have "\<forall>x \<in> set (map origin (trows final_recom)). isl x"
    unfolding refine_recommendations_no_column_origin[OF nc rf] by simp
  then have "\<forall>x \<in> set (map origin (trows final)). isl x"
    unfolding drop_column_origin[OF d] .
  then show ?thesis
    unfolding r by (auto simp: recommendations_frame_def map_extra_def split: sum.splits)
qed

section \<open>Frames changed in place\<close>










section \<open>Properties of the pipeline\<close>

subsection \<open>The recommendations without the comfort zone\<close>

text \<open>
  Claim C10. \<open>get_recommendations\<close> returns the first \<open>min(10, n)\<close> rows of the \<open>n\<close> rows of
  \<open>matches\<close>, in their order and under the same columns: a prefix of the ranked list. With
  the comfort zone off, \<open>recommend_occupation\<close> returns exactly this frame.
\<close>

theorem get_recommendations_top10:
  "rows (get_recommendations matches) = take 10 (rows matches)
   \<and> columns (get_recommendations matches) = columns matches
   \<and> length (rows (get_recommendations matches)) = min 10 (length (rows matches))
   \<and> prefix (rows (get_recommendations matches)) (rows matches)
   \<and> recommend_occupation (JobRecommender read_esco) data_path matches
         transformed_profiles_preferred transformed_profiles False
       = Inr (map_frame Inl (get_recommendations matches))"
  by (simp add: get_recommendations_def head_def recommend_occupation_def JobRecommender_def
      take_is_prefix min.commute)

subsection \<open>The bucket handed to the ranker\<close>

text \<open>
  With a rating list that is neither NaN nor empty, which covers the skip path and the
  decisive path, the pipeline selects the first bucket unless it is empty, and the second
  bucket when it is.
\<close>

lemma select_bucket_rated:
  "\<not> is_nan_or_empty rl \<Longrightarrow>
   select_bucket rl (preferred, alternate) = Inr (if df_empty preferred then alternate else preferred)"
  by (auto simp: select_bucket_def is_nan_or_empty_def split: option.splits)

text \<open>
  Without a rating list the first bucket is selected when it has a row; when it has none,
  the subscript \<open>[1]\<close> is applied to the frame that was just selected and raises KeyError.
\<close>

lemma select_bucket_unrated:
  "is_nan_or_empty rl \<Longrightarrow>
   select_bucket rl (preferred, alternate) = (if df_empty preferred then Inl KeyError else Inr preferred)"
  by (simp add: select_bucket_def Let_def df_getitem_int_def)

text \<open>
  Claim C1 at its failing input. The user has no ratings, so \<open>filter_by_rating\<close> takes the
  path without a signal; the only occupation \<open>A\<close> belongs to sector 3 and the user prefers
  sector 9, so both buckets are empty. Where the claim selects the second bucket,
  \<open>match_user_profile\<close> raises KeyError; the first conjunct states it for every pair of
  buckets whose first one has no row.
\<close>

theorem no_signal_empty_bucket_KeyError:
  "select_bucket None (Frame cs [], alternate) = Inl KeyError
   \<and> match_user_profile (JobMatcher ''euclidean'' stable_argsort
          (\<lambda>path. \<lparr>occupations = [], other_concepts = [], broaderRelationsOccPillar = []\<rparr>))
        (\<lambda>path. Inr [(''A'', ''[3]'')]) ''data/''
        \<lparr>profile_cells = zip future_skill_col_names [1, 0, 0, 0, 0, 0, 0, 0, 0, 0],
          target_job_recommendations = None, target_job_ratings = None\<rparr>
        (Frame future_skill_col_names [Row ''A'' [1, 0, 0, 0, 0, 0, 0, 0, 0, 0] ()])
        \<lparr>user_columns = [], user_rows = []\<rparr>
        (Some [9]) [] False
      = Inl KeyError"
  by (simp add: select_bucket_def is_nan_or_empty_def df_empty_def df_getitem_int_def
      match_user_profile_def JobMatcher_def extract_user_rating_def filter_by_rating_def
      expand_user_profiles_def process_columns_def expand_rows_def history_then_preferences_def
      filter_by_job_history_def jobs_disliked_def filter_by_preferences_def merge_kldb_def
      str_contains_def kldb_keys_def digit_char_def map_frame_def Let_def
      sublist_Cons_right)


subsection \<open>The failure boundary of run\<close>

text \<open>
  An exception of the rating filter, of the selection of the bucket or of the ranker is an
  exception of \<open>match_user_profile\<close>.
\<close>

lemma match_user_profile_stage_errors:
  assumes "read_csv (ESCO2kldb data_path) = Inr esco_kldb"
      and "m_extract_user_rating M target_profile = Inr (ratings, uris)"
  shows "m_filter_by_rating M transformed_profiles user_profiles esco_kldb (ESCO_path data_path)
             preferences job_history uris ratings = Inl e
         \<Longrightarrow> match_user_profile M read_csv data_path target_profile transformed_profiles
               user_profiles preferences job_history lz = Inl e"
    and "m_filter_by_rating M transformed_profiles user_profiles esco_kldb (ESCO_path data_path)
             preferences job_history uris ratings = Inr filtered_profiles
         \<Longrightarrow> select_bucket ratings filtered_profiles = Inl e
         \<Longrightarrow> match_user_profile M read_csv data_path target_profile transformed_profiles
               user_profiles preferences job_history lz = Inl e"
    and "m_filter_by_rating M transformed_profiles user_profiles esco_kldb (ESCO_path data_path)
             preferences job_history uris ratings = Inr filtered_profiles
         \<Longrightarrow> select_bucket ratings filtered_profiles = Inr bucket
         \<Longrightarrow> m_calculate_distances M target_profile bucket = Inl e
         \<Longrightarrow> match_user_profile M read_csv data_path target_profile transformed_profiles
               user_profiles preferences job_history lz = Inl e"
  using assms by (simp_all add: match_user_profile_def)

text \<open>\<open>run\<close> never lets an exception reach its caller.\<close>

lemma run_never_raises:
  "run M R read_csv data_path target_profile preferences job_history transformed_profiles
     user_profiles \<noteq> Raised e"
  by (simp add: run_def split: sum.splits prod.splits)

text \<open>
  Claim C7, as far as the code goes. When \<open>match_user_profile\<close> or \<open>recommend_occupation\<close>
  raises an exception, whatever its kind, \<open>run\<close> returns no result, partial or not, and
  raises \<open>SystemExit\<close> through \<open>sys.exit()\<close>; the exception is printed and does not reach
  the caller as an error value.
\<close>

theorem run_exits_on_stage_error:
  assumes "(\<exists>e. match_user_profile M read_csv data_path target_profile transformed_profiles
                   user_profiles preferences job_history False = Inl e)
         \<or> (\<exists>matches transformed_profiles_preferred e.
               match_user_profile M read_csv data_path target_profile transformed_profiles
                   user_profiles preferences job_history False
                 = Inr (matches, transformed_profiles_preferred)
               \<and> recommend_occupation R data_path matches transformed_profiles_preferred
                     transformed_profiles True = Inl e)"
  shows "run M R read_csv data_path target_profile preferences job_history transformed_profiles
           user_profiles = SystemExit"
  using assms by (auto simp: run_def)

text \<open>
  The profile of the request has the columns \<open>FS1\<close> and \<open>skill_2\<close>, so the ten columns
  \<open>FS1\<close> to \<open>FS10\<close> cannot be selected from it and the ranker raises KeyError.
\<close>

lemma schema_mismatch_calculate_distances:
  "getitem future_skill_col_names query_vector = None \<Longrightarrow>
   fst (calculate_distances method argsort query_vector job_fs_profiles) = Inl KeyError"
  by (simp add: calculate_distances_def Let_def)

text \<open>
  Claim C7 as stated fails: for the profile above \<open>run\<close> ends in \<open>SystemExit\<close>, where the
  claim has a validation error handed to the caller and no termination.
\<close>

theorem schema_mismatch_counterexample:
  "getitem future_skill_col_names [(''FS1'', 1), (''skill_2'', 0)] = None
   \<and> run (JobMatcher ''euclidean'' stable_argsort
          (\<lambda>path. \<lparr>occupations = [], other_concepts = [], broaderRelationsOccPillar = []\<rparr>))
        (JobRecommender
          (\<lambda>path. \<lparr>occupations = [], other_concepts = [], broaderRelationsOccPillar = []\<rparr>))
        (\<lambda>path. Inr [(''A'', ''[3]'')]) ''data/''
        \<lparr>profile_cells = [(''FS1'', 1), (''skill_2'', 0)],
          target_job_recommendations = None, target_job_ratings = None\<rparr>
        None []
        (Frame future_skill_col_names [Row ''A'' [1, 0, 0, 0, 0, 0, 0, 0, 0, 0] ()])
        \<lparr>user_columns = [], user_rows = []\<rparr>
      = SystemExit"
  by (simp add: run_def getitem_def future_skill_col_names_def
      select_bucket_def is_nan_or_empty_def df_empty_def df_getitem_int_def
      match_user_profile_def JobMatcher_def extract_user_rating_def filter_by_rating_def
      expand_user_profiles_def process_columns_def expand_rows_def history_then_preferences_def
      filter_by_job_history_def jobs_disliked_def filter_by_preferences_def merge_kldb_def
      map_frame_def map_extra_def calculate_distances_def rename_in_place_def Let_def)

text \<open>
  The theorem at another failure: the user disliked the job \<open>X\<close>, which is not in the pool,
  so the history filter raises KeyError inside \<open>match_user_profile\<close>.
\<close>

theorem run_exits_on_stage_error_witness:
  "match_user_profile (JobMatcher ''euclidean'' stable_argsort
          (\<lambda>path. \<lparr>occupations = [], other_concepts = [], broaderRelationsOccPillar = []\<rparr>))
        (\<lambda>path. Inr [(''A'', ''[3]'')]) ''data/''
        \<lparr>profile_cells = zip future_skill_col_names [1, 0, 0, 0, 0, 0, 0, 0, 0, 0],
          target_job_recommendations = None, target_job_ratings = None\<rparr>
        (Frame future_skill_col_names [Row ''A'' [1, 0, 0, 0, 0, 0, 0, 0, 0, 0] ()])
        \<lparr>user_columns = [], user_rows = []\<rparr>
        None [[(''X'', False)]] False = Inl KeyError
   \<and> run (JobMatcher ''euclidean'' stable_argsort
          (\<lambda>path. \<lparr>occupations = [], other_concepts = [], broaderRelationsOccPillar = []\<rparr>))
        (JobRecommender
          (\<lambda>path. \<lparr>occupations = [], other_concepts = [], broaderRelationsOccPillar = []\<rparr>))
        (\<lambda>path. Inr [(''A'', ''[3]'')]) ''data/''
        \<lparr>profile_cells = zip future_skill_col_names [1, 0, 0, 0, 0, 0, 0, 0, 0, 0],
          target_job_recommendations = None, target_job_ratings = None\<rparr>
        None [[(''X'', False)]]
        (Frame future_skill_col_names [Row ''A'' [1, 0, 0, 0, 0, 0, 0, 0, 0, 0] ()])
        \<lparr>user_columns = [], user_rows = []\<rparr>
      = SystemExit"
proof -
  have m: "match_user_profile (JobMatcher ''euclidean'' stable_argsort
          (\<lambda>path. \<lparr>occupations = [], other_concepts = [], broaderRelationsOccPillar = []\<rparr>))
        (\<lambda>path. Inr [(''A'', ''[3]'')]) ''data/''
        \<lparr>profile_cells = zip future_skill_col_names [1, 0, 0, 0, 0, 0, 0, 0, 0, 0],
          target_job_recommendations = None, target_job_ratings = None\<rparr>
        (Frame future_skill_col_names [Row ''A'' [1, 0, 0, 0, 0, 0, 0, 0, 0, 0] ()])
        \<lparr>user_columns = [], user_rows = []\<rparr>
        None [[(''X'', False)]] False = Inl KeyError"
    by (simp add: is_nan_or_empty_def
      match_user_profile_def JobMatcher_def extract_user_rating_def filter_by_rating_def
      expand_user_profiles_def process_columns_def expand_rows_def history_then_preferences_def
      filter_by_job_history_def jobs_disliked_def loc_values_def Let_def)
  have "run (JobMatcher ''euclidean'' stable_argsort
          (\<lambda>path. \<lparr>occupations = [], other_concepts = [], broaderRelationsOccPillar = []\<rparr>))
        (JobRecommender
          (\<lambda>path. \<lparr>occupations = [], other_concepts = [], broaderRelationsOccPillar = []\<rparr>))
        (\<lambda>path. Inr [(''A'', ''[3]'')]) ''data/''
        \<lparr>profile_cells = zip future_skill_col_names [1, 0, 0, 0, 0, 0, 0, 0, 0, 0],
          target_job_recommendations = None, target_job_ratings = None\<rparr>
        None [[(''X'', False)]]
        (Frame future_skill_col_names [Row ''A'' [1, 0, 0, 0, 0, 0, 0, 0, 0, 0] ()])
        \<lparr>user_columns = [], user_rows = []\<rparr>
      = SystemExit"
    by (rule run_exits_on_stage_error, rule disjI1, rule exI, rule m)
  with m show ?thesis by (rule conjI)
qed

end
